theory Spec2Isabelle
  imports Complex_Main "HOL-Library.Word"
begin

section \<open>Python values\<close>

text \<open>
  Exceptions of the Python sources are values of \<open>py_error\<close>; a function that can raise
  returns \<open>py_error + 'a\<close> with \<open>Inl\<close> for the exception. A Python \<open>str\<close> is a
  \<open>string\<close>, one \<open>char\<close> per code point (code points below 256); \<open>bytes\<close> is a list
  of naturals below 256.
\<close>

datatype py_error =
    TypeError | ValueError | KeyError | OverflowError | OSError | SocketTimeout
  | JSONDecodeError | UnicodeDecodeError | IntegrityError | RuntimeError | AttributeError

text \<open>
  The values a payload dictionary holds: \<open>None\<close>, booleans, integers, strings, lists and
  dictionaries with string keys. A dictionary is an association list in insertion order.
  Floats are left out of the model.
\<close>

datatype json =
    JNull | JBool bool | JInt int | JStr string | JList "json list"
  | JObj "(string \<times> json) list"

type_synonym pydict = "(string \<times> json) list"

text \<open>\<open>key in d\<close> and \<open>d.get(key)\<close> on a dictionary.\<close>

definition dict_contains :: "string \<Rightarrow> pydict \<Rightarrow> bool" where
  "dict_contains k d = (k \<in> set (map fst d))"

definition dict_get :: "string \<Rightarrow> pydict \<Rightarrow> json option" where
  "dict_get k d = map_of d k"

section \<open>utils/validators.py\<close>

text \<open>
  The validators test a string with \<open>re.match\<close> against an anchored pattern. A pattern
  of fixed length is a list of character classes. The anchor \<open>$\<close> matches at the end of
  the string and also just before a newline that ends the string.
\<close>

definition is_digit :: "char \<Rightarrow> bool" where
  "is_digit c = (c \<in> set ''0123456789'')"

definition is_hex_digit :: "char \<Rightarrow> bool" where
  "is_hex_digit c = (c \<in> set ''0123456789abcdefABCDEF'')"

definition is_alpha :: "char \<Rightarrow> bool" where
  "is_alpha c = (c \<in> set ''abcdefghijklmnopqrstuvwxyzABCDEFGHIJKLMNOPQRSTUVWXYZ'')"

text \<open>The class \<open>\s\<close> of a \<open>str\<close> pattern, for code points below 256.\<close>

definition is_space :: "char \<Rightarrow> bool" where
  "is_space c = ((of_char c :: nat) \<in> set [9, 10, 11, 12, 13, 28, 29, 30, 31, 32, 133, 160])"

definition match_classes :: "(char \<Rightarrow> bool) list \<Rightarrow> string \<Rightarrow> bool" where
  "match_classes cs s = list_all2 (\<lambda>p c. p c) cs s"

definition re_dollar :: "(string \<Rightarrow> bool) \<Rightarrow> string \<Rightarrow> bool" where
  "re_dollar P s = (P s \<or> (s \<noteq> [] \<and> last s = CHR 0x0A \<and> P (butlast s)))"

text \<open>\<open>s.split(sep)\<close> for a one-character separator.\<close>

fun split_on :: "char \<Rightarrow> string \<Rightarrow> string list" where
  "split_on sep [] = [[]]"
| "split_on sep (c # cs) =
     (if c = sep then [] # split_on sep cs
      else (case split_on sep cs of [] \<Rightarrow> [[c]] | p # ps \<Rightarrow> (c # p) # ps))"

definition digit_val :: "char \<Rightarrow> nat" where
  "digit_val c = of_char c - 48"

definition digits_value :: "string \<Rightarrow> nat" where
  "digits_value s = foldl (\<lambda>a c. 10 * a + digit_val c) 0 s"

text \<open>
  \<open>int(part)\<close> on a part the IPv4 pattern has matched: decimal digits, and after the last
  part possibly the newline that \<open>$\<close> tolerates, which \<open>int\<close> strips.
\<close>

definition int_of_part :: "string \<Rightarrow> nat" where
  "int_of_part p = digits_value (takeWhile is_digit p)"

definition ipv4_pattern :: "string \<Rightarrow> bool" where
  "ipv4_pattern w =
     (let parts = split_on (CHR ''.'') w
      in length parts = 4 \<and>
         list_all (\<lambda>p. 1 \<le> length p \<and> length p \<le> 3 \<and> list_all is_digit p) parts)"

definition ipv6_pattern :: "string \<Rightarrow> bool" where
  "ipv6_pattern w =
     (let parts = split_on (CHR '':'') w
      in 3 \<le> length parts \<and> length parts \<le> 8 \<and>
         list_all (\<lambda>p. length p \<le> 4 \<and> list_all is_hex_digit p) parts)"

definition validate_ip_address :: "string \<Rightarrow> bool" where
  "validate_ip_address ip =
     (if re_dollar ipv4_pattern ip
      then list_all (\<lambda>part. int_of_part part \<le> 255) (split_on (CHR ''.'') ip)
      else re_dollar ipv6_pattern ip)"

definition validate_port :: "int \<Rightarrow> bool" where
  "validate_port port = (1 \<le> port \<and> port \<le> 65535)"

definition name_char :: "char \<Rightarrow> bool" where
  "name_char c = (is_alpha c \<or> is_digit c \<or> is_space c \<or> c = CHR ''-'' \<or> c = CHR 0x27)"

definition validate_device_name :: "string \<Rightarrow> nat \<Rightarrow> bool" where
  "validate_device_name name max_length =
     (if name = [] then False
      else if length name > max_length then False
      else re_dollar (\<lambda>w. w \<noteq> [] \<and> list_all name_char w) name)"

definition mac_sep :: "char \<Rightarrow> bool" where
  "mac_sep c = (c = CHR '':'' \<or> c = CHR ''-'')"

definition mac_pattern :: "(char \<Rightarrow> bool) list" where
  "mac_pattern =
     concat (replicate 5 [is_hex_digit, is_hex_digit, mac_sep]) @ [is_hex_digit, is_hex_digit]"

definition validate_mac_address :: "string \<Rightarrow> bool" where
  "validate_mac_address mac = re_dollar (match_classes mac_pattern) mac"

definition is_dash :: "char \<Rightarrow> bool" where
  "is_dash c = (c = CHR ''-'')"

definition uuid_pattern :: "(char \<Rightarrow> bool) list" where
  "uuid_pattern =
     replicate 8 is_hex_digit @ [is_dash] @ replicate 4 is_hex_digit @ [is_dash] @
     replicate 4 is_hex_digit @ [is_dash] @ replicate 4 is_hex_digit @ [is_dash] @
     replicate 12 is_hex_digit"

definition validate_uuid :: "string \<Rightarrow> bool" where
  "validate_uuid uuid_str = re_dollar (match_classes uuid_pattern) uuid_str"

definition validate_os_type :: "string \<Rightarrow> bool" where
  "validate_os_type os_type = (os_type \<in> set [''Windows'', ''Darwin''])"

section \<open>datetime\<close>

text \<open>
  \<open>datetime\<close>: the calendar fields and the UTC offset of an aware value (in whole
  minutes; \<open>None\<close> for a naive value). The constructor of Python's class admits exactly
  the values of \<open>valid_datetime\<close>.
\<close>

record datetime =
  year :: nat
  month :: nat
  day :: nat
  hour :: nat
  minute :: nat
  second :: nat
  microsecond :: nat
  tzoffset :: "int option"

definition is_leap :: "nat \<Rightarrow> bool" where
  "is_leap y = (y mod 4 = 0 \<and> (y mod 100 \<noteq> 0 \<or> y mod 400 = 0))"

definition days_in_month :: "nat \<Rightarrow> nat \<Rightarrow> nat" where
  "days_in_month y m =
     (if m = 2 then (if is_leap y then 29 else 28)
      else if m \<in> set [4, 6, 9, 11] then 30 else 31)"

definition valid_datetime :: "datetime \<Rightarrow> bool" where
  "valid_datetime t =
     (1 \<le> year t \<and> year t \<le> 9999 \<and> 1 \<le> month t \<and> month t \<le> 12 \<and>
      1 \<le> day t \<and> day t \<le> days_in_month (year t) (month t) \<and>
      hour t < 24 \<and> minute t < 60 \<and> second t < 60 \<and> microsecond t < 1000000 \<and>
      (case tzoffset t of None \<Rightarrow> True | Some off \<Rightarrow> - 1440 < off \<and> off < 1440))"

definition digit_char :: "nat \<Rightarrow> char" where
  "digit_char n = char_of (48 + n)"

text \<open>\<open>pad k n\<close>: the last \<open>k\<close> decimal digits of \<open>n\<close>, the format \<open>%0kd\<close>.\<close>

fun pad :: "nat \<Rightarrow> nat \<Rightarrow> string" where
  "pad 0 n = []"
| "pad (Suc k) n = pad k (n div 10) @ [digit_char (n mod 10)]"

definition read_digits :: "string \<Rightarrow> nat option" where
  "read_digits s = (if s \<noteq> [] \<and> list_all is_digit s then Some (digits_value s) else None)"

definition format_offset :: "int \<Rightarrow> string" where
  "format_offset off =
     (let a = nat \<bar>off\<bar>
      in (if off < 0 then ''-'' else ''+'') @ pad 2 (a div 60) @ '':'' @ pad 2 (a mod 60))"

text \<open>\<open>datetime.isoformat()\<close> with its default separator and time specification.\<close>

definition isoformat :: "datetime \<Rightarrow> string" where
  "isoformat t =
     pad 4 (year t) @ ''-'' @ pad 2 (month t) @ ''-'' @ pad 2 (day t) @ ''T'' @
     pad 2 (hour t) @ '':'' @ pad 2 (minute t) @ '':'' @ pad 2 (second t) @
     (if microsecond t = 0 then [] else ''.'' @ pad 6 (microsecond t)) @
     (case tzoffset t of None \<Rightarrow> [] | Some off \<Rightarrow> format_offset off)"

text \<open>
  \<open>datetime.fromisoformat\<close>: a date \<open>YYYY-MM-DD\<close>, then optionally one separator
  character and a time \<open>HH[:MM[:SS[.fff[fff]]]]\<close> with an optional offset \<open>+HH:MM\<close>
  or \<open>-HH:MM\<close>. Anything else, and any field out of range, is a \<open>ValueError\<close>.
\<close>

definition parse_date :: "string \<Rightarrow> (nat \<times> nat \<times> nat) option" where
  "parse_date s =
     (if length s = 10 \<and> s ! 4 = CHR ''-'' \<and> s ! 7 = CHR ''-''
      then (case (read_digits (take 4 s), read_digits (take 2 (drop 5 s)),
                  read_digits (drop 8 s)) of
              (Some y, Some m, Some d) \<Rightarrow> Some (y, m, d)
            | _ \<Rightarrow> None)
      else None)"

definition parse_hms :: "string \<Rightarrow> (nat \<times> nat \<times> nat \<times> nat) option" where
  "parse_hms s =
     (let n = length s in
      if n = 2 then
        (case read_digits s of Some h \<Rightarrow> Some (h, 0, 0, 0) | None \<Rightarrow> None)
      else if n = 5 \<and> s ! 2 = CHR '':'' then
        (case (read_digits (take 2 s), read_digits (drop 3 s)) of
           (Some h, Some mi) \<Rightarrow> Some (h, mi, 0, 0) | _ \<Rightarrow> None)
      else if (n = 8 \<or> n = 12 \<or> n = 15) \<and> s ! 2 = CHR '':'' \<and> s ! 5 = CHR '':''
              \<and> (n = 8 \<or> s ! 8 = CHR ''.'') then
        (case (read_digits (take 2 s), read_digits (take 2 (drop 3 s)),
               read_digits (take 2 (drop 6 s))) of
           (Some h, Some mi, Some sec) \<Rightarrow>
             (if n = 8 then Some (h, mi, sec, 0)
              else (case read_digits (drop 9 s) of
                      Some f \<Rightarrow> Some (h, mi, sec, if n = 12 then f * 1000 else f)
                    | None \<Rightarrow> None))
         | _ \<Rightarrow> None)
      else None)"

definition parse_offset :: "string \<Rightarrow> int option" where
  "parse_offset s =
     (if length s = 6 \<and> (s ! 0 = CHR ''+'' \<or> s ! 0 = CHR ''-'') \<and> s ! 3 = CHR '':''
      then (case (read_digits (take 2 (drop 1 s)), read_digits (drop 4 s)) of
              (Some h, Some mi) \<Rightarrow>
                (if mi < 60
                 then Some ((if s ! 0 = CHR ''-'' then - 1 else 1) * int (h * 60 + mi))
                 else None)
            | _ \<Rightarrow> None)
      else None)"

definition is_sign :: "char \<Rightarrow> bool" where
  "is_sign c = (c = CHR ''+'' \<or> c = CHR ''-'')"

definition fromisoformat :: "string \<Rightarrow> py_error + datetime" where
  "fromisoformat s =
     (case parse_date (take 10 s) of
        None \<Rightarrow> Inl ValueError
      | Some (y, m, d) \<Rightarrow>
          (let tstr = drop 11 s;
               hms_str = takeWhile (\<lambda>c. \<not> is_sign c) tstr;
               tz_str = dropWhile (\<lambda>c. \<not> is_sign c) tstr;
               hms = (if length s = 10 then Some (0, 0, 0, 0) else parse_hms hms_str);
               tz = (if tz_str = [] then Some None
                     else (case parse_offset tz_str of None \<Rightarrow> None | Some off \<Rightarrow> Some (Some off)))
           in (case (hms, tz) of
                 (Some (h, mi, sec, us), Some off) \<Rightarrow>
                   (let t = \<lparr>year = y, month = m, day = d, hour = h, minute = mi,
                             second = sec, microsecond = us, tzoffset = off\<rparr>
                    in if valid_datetime t then Inr t else Inl ValueError)
               | _ \<Rightarrow> Inl ValueError)))"

text \<open>
  The difference of two datetimes in microseconds, as \<open>a - b\<close> computes it: the proleptic
  Gregorian ordinal of the date, the time of day, and the offsets of aware values.
  Subtracting a naive from an aware value (or the reverse) raises \<open>TypeError\<close>.
\<close>

definition days_before_year :: "nat \<Rightarrow> nat" where
  "days_before_year y = (let p = y - 1 in p * 365 + p div 4 - p div 100 + p div 400)"

definition days_before_month :: "nat \<Rightarrow> nat \<Rightarrow> nat" where
  "days_before_month y m = sum_list (map (days_in_month y) [1..<m])"

definition local_micros :: "datetime \<Rightarrow> int" where
  "local_micros t =
     (int (days_before_year (year t) + days_before_month (year t) (month t) + day t) * 86400
      + int (hour t * 3600 + minute t * 60 + second t)) * 1000000 + int (microsecond t)"

definition dt_sub :: "datetime \<Rightarrow> datetime \<Rightarrow> py_error + int" where
  "dt_sub a b =
     (case (tzoffset a, tzoffset b) of
        (None, None) \<Rightarrow> Inr (local_micros a - local_micros b)
      | (Some oa, Some ob) \<Rightarrow>
          Inr ((local_micros a - oa * 60000000) - (local_micros b - ob * 60000000))
      | _ \<Rightarrow> Inl TypeError)"

section \<open>models/device.py\<close>

datatype DeviceRole = MASTER | CLIENT | UNASSIGNED

datatype DeviceOS = WINDOWS | MACOS

fun DeviceOS_value :: "DeviceOS \<Rightarrow> string" where
  "DeviceOS_value WINDOWS = ''Windows''"
| "DeviceOS_value MACOS = ''Darwin''"

fun DeviceRole_value :: "DeviceRole \<Rightarrow> string" where
  "DeviceRole_value MASTER = ''MASTER''"
| "DeviceRole_value CLIENT = ''CLIENT''"
| "DeviceRole_value UNASSIGNED = ''UNASSIGNED''"

record Device =
  dev_id :: string
  mac_address :: string
  name :: string
  os :: DeviceOS
  role :: DeviceRole
  ip_address :: "string option"
  port :: int
  version :: string
  is_registered :: bool
  created_at :: datetime
  last_seen :: datetime

text \<open>
  \<open>Device.__post_init__\<close>: the constructor returns the device or raises \<open>ValueError\<close>.
  \<open>if self.ip_address\<close> is false for \<open>None\<close> and for the empty string.
\<close>

definition Device_post_init :: "Device \<Rightarrow> py_error + Device" where
  "Device_post_init d =
     (if \<not> validate_uuid (dev_id d) then Inl ValueError
      else if mac_address d \<noteq> [] \<and> \<not> validate_mac_address (mac_address d) then Inl ValueError
      else if \<not> validate_device_name (name d) 50 then Inl ValueError
      else if \<not> validate_port (port d) then Inl ValueError
      else if (case ip_address d of None \<Rightarrow> False
               | Some ip \<Rightarrow> ip \<noteq> [] \<and> \<not> validate_ip_address ip) then Inl ValueError
      else if \<not> validate_os_type (DeviceOS_value (os d)) then Inl ValueError
      else Inr d)"

section \<open>models/input_event.py\<close>

datatype InputEventType =
    KEY_PRESS | KEY_RELEASE | MOUSE_MOVE | MOUSE_CLICK | MOUSE_RELEASE | MOUSE_SCROLL

fun InputEventType_value :: "InputEventType \<Rightarrow> string" where
  "InputEventType_value KEY_PRESS = ''KEY_PRESS''"
| "InputEventType_value KEY_RELEASE = ''KEY_RELEASE''"
| "InputEventType_value MOUSE_MOVE = ''MOUSE_MOVE''"
| "InputEventType_value MOUSE_CLICK = ''MOUSE_CLICK''"
| "InputEventType_value MOUSE_RELEASE = ''MOUSE_RELEASE''"
| "InputEventType_value MOUSE_SCROLL = ''MOUSE_SCROLL''"

text \<open>\<open>InputEventType(value)\<close>: the member with that value, or \<open>ValueError\<close>.\<close>

definition InputEventType_of :: "string \<Rightarrow> InputEventType option" where
  "InputEventType_of s =
     find (\<lambda>k. InputEventType_value k = s)
       [KEY_PRESS, KEY_RELEASE, MOUSE_MOVE, MOUSE_CLICK, MOUSE_RELEASE, MOUSE_SCROLL]"

record InputEvent =
  event_id :: string
  event_type :: InputEventType
  source_device_id :: string
  target_device_id :: string
  payload :: pydict
  timestamp :: datetime
  is_encrypted :: bool

definition validate_payload :: "InputEvent \<Rightarrow> py_error + unit" where
  "validate_payload e =
     (if event_type e = KEY_PRESS \<or> event_type e = KEY_RELEASE then
        (if \<not> dict_contains ''keycode'' (payload e) then Inl ValueError else Inr ())
      else if event_type e = MOUSE_MOVE then
        (if \<not> dict_contains ''x'' (payload e) \<or> \<not> dict_contains ''y'' (payload e)
         then Inl ValueError else Inr ())
      else if event_type e = MOUSE_CLICK \<or> event_type e = MOUSE_RELEASE then
        (if \<not> dict_contains ''button'' (payload e) then Inl ValueError else Inr ())
      else if event_type e = MOUSE_SCROLL then
        (if \<not> dict_contains ''scroll_delta'' (payload e) then Inl ValueError else Inr ())
      else Inr ())"

text \<open>\<open>InputEvent.__post_init__\<close>: the constructor returns the event or raises.\<close>

definition InputEvent_post_init :: "InputEvent \<Rightarrow> py_error + InputEvent" where
  "InputEvent_post_init e =
     (if \<not> validate_uuid (source_device_id e) then Inl ValueError
      else if \<not> validate_uuid (target_device_id e) then Inl ValueError
      else (case validate_payload e of Inl err \<Rightarrow> Inl err | Inr u \<Rightarrow> Inr e))"

definition to_dict :: "InputEvent \<Rightarrow> pydict" where
  "to_dict e =
     [(''id'', JStr (event_id e)),
      (''event_type'', JStr (InputEventType_value (event_type e))),
      (''source_device_id'', JStr (source_device_id e)),
      (''target_device_id'', JStr (target_device_id e)),
      (''payload'', JObj (payload e)),
      (''timestamp'', JStr (isoformat (timestamp e))),
      (''is_encrypted'', JBool (is_encrypted e))]"

text \<open>
  \<open>InputEvent.from_dict\<close>. \<open>data[key]\<close> raises \<open>KeyError\<close> on a missing key;
  \<open>fresh_id\<close> is the \<open>str(uuid.uuid4())\<close> the default of \<open>data.get("id", ...)\<close> draws.
  The fields are typed (\<open>str\<close>, \<open>dict\<close>, \<open>bool\<close>): a value of another type is a
  \<open>TypeError\<close> here.
\<close>

definition get_str :: "json option \<Rightarrow> py_error + string" where
  "get_str v = (case v of None \<Rightarrow> Inl KeyError | Some (JStr s) \<Rightarrow> Inr s | Some _ \<Rightarrow> Inl TypeError)"

definition from_dict :: "string \<Rightarrow> pydict \<Rightarrow> py_error + InputEvent" where
  "from_dict fresh_id data =
     (case (case dict_get ''id'' data of None \<Rightarrow> Inr fresh_id | Some v \<Rightarrow> get_str (Some v)) of
        Inl err \<Rightarrow> Inl err
      | Inr i \<Rightarrow>
     (case get_str (dict_get ''event_type'' data) of Inl err \<Rightarrow> Inl err
      | Inr ks \<Rightarrow>
     (case InputEventType_of ks of None \<Rightarrow> Inl ValueError
      | Some k \<Rightarrow>
     (case get_str (dict_get ''source_device_id'' data) of Inl err \<Rightarrow> Inl err
      | Inr src \<Rightarrow>
     (case get_str (dict_get ''target_device_id'' data) of Inl err \<Rightarrow> Inl err
      | Inr tgt \<Rightarrow>
     (case dict_get ''payload'' data of None \<Rightarrow> Inl KeyError
      | Some (JObj p) \<Rightarrow>
     (case get_str (dict_get ''timestamp'' data) of Inl err \<Rightarrow> Inl err
      | Inr ts \<Rightarrow>
     (case fromisoformat ts of Inl err \<Rightarrow> Inl err
      | Inr t \<Rightarrow>
     (case (case dict_get ''is_encrypted'' data of None \<Rightarrow> Inr True
            | Some (JBool b) \<Rightarrow> Inr b | Some _ \<Rightarrow> Inl TypeError) of
        Inl err \<Rightarrow> Inl err
      | Inr enc \<Rightarrow>
          InputEvent_post_init
            \<lparr>event_id = i, event_type = k, source_device_id = src, target_device_id = tgt,
             payload = p, timestamp = t, is_encrypted = enc\<rparr>)))
      | Some _ \<Rightarrow> Inl TypeError))))))"

section \<open>json.dumps and json.loads\<close>

text \<open>
  \<open>json.dumps\<close> with its defaults: separators \<open>", "\<close> and \<open>": "\<close>, and
  \<open>ensure_ascii\<close>, which writes every character outside the printable ASCII range as an
  escape.
\<close>

definition hex_char :: "nat \<Rightarrow> char" where
  "hex_char k = ''0123456789abcdef'' ! k"

definition escape_char :: "char \<Rightarrow> string" where
  "escape_char c =
     (if c = CHR 0x22 then [CHR 0x5C, CHR 0x22]
      else if c = CHR 0x5C then [CHR 0x5C, CHR 0x5C]
      else if c = CHR 0x0A then [CHR 0x5C, CHR ''n'']
      else if c = CHR 0x0D then [CHR 0x5C, CHR ''r'']
      else if c = CHR 0x09 then [CHR 0x5C, CHR ''t'']
      else if c = CHR 0x08 then [CHR 0x5C, CHR ''b'']
      else if c = CHR 0x0C then [CHR 0x5C, CHR ''f'']
      else if (of_char c :: nat) < 32 \<or> 127 \<le> (of_char c :: nat)
      then [CHR 0x5C, CHR ''u'', CHR ''0'', CHR ''0'',
            hex_char ((of_char c :: nat) div 16), hex_char ((of_char c :: nat) mod 16)]
      else [c])"

definition encode_string :: "string \<Rightarrow> string" where
  "encode_string s = [CHR 0x22] @ concat (map escape_char s) @ [CHR 0x22]"

fun dec :: "nat \<Rightarrow> string" where
  "dec n = (if n < 10 then [digit_char n] else dec (n div 10) @ [digit_char (n mod 10)])"

declare dec.simps [simp del]

definition encode_int :: "int \<Rightarrow> string" where
  "encode_int i = (if i < 0 then CHR ''-'' # dec (nat (- i)) else dec (nat i))"

text \<open>\<open>sep.join(parts)\<close>.\<close>

fun join :: "string \<Rightarrow> string list \<Rightarrow> string" where
  "join sep [] = []"
| "join sep [x] = x"
| "join sep (x # y # ys) = x @ sep @ join sep (y # ys)"

fun json_dumps :: "json \<Rightarrow> string" where
  "json_dumps JNull = ''null''"
| "json_dumps (JBool b) = (if b then ''true'' else ''false'')"
| "json_dumps (JInt i) = encode_int i"
| "json_dumps (JStr s) = encode_string s"
| "json_dumps (JList xs) = ''['' @ join '', '' (map json_dumps xs) @ '']''"
| "json_dumps (JObj kvs) =
     ''{'' @ join '', '' (map (\<lambda>(k, v). encode_string k @ '': '' @ json_dumps v) kvs) @ ''}''"

text \<open>
  \<open>json.loads\<close>: the recursive-descent decoder of the \<open>json\<close> module. The first
  argument of the three parsing functions bounds the nesting and the number of
  elements; \<open>json_loads\<close> starts them with more than the length of the text, which no
  text exhausts. Results outside the model of values have no result here: a number
  with a fraction or an exponent, \<open>NaN\<close> and \<open>Infinity\<close> (floats), and an escape
  \<open>\uXXXX\<close> of a code point above 255.
\<close>

definition is_ws :: "char \<Rightarrow> bool" where
  "is_ws c = (c \<in> set [CHR '' '', CHR 0x09, CHR 0x0A, CHR 0x0D])"

definition skip_ws :: "string \<Rightarrow> string" where
  "skip_ws s = dropWhile is_ws s"

definition hex_val :: "char \<Rightarrow> nat option" where
  "hex_val c =
     (if is_digit c then Some (of_char c - 48)
      else if c \<in> set ''abcdef'' then Some (of_char c - 87)
      else if c \<in> set ''ABCDEF'' then Some (of_char c - 55)
      else None)"

definition unescape :: "char \<Rightarrow> char option" where
  "unescape e =
     (if e = CHR 0x22 then Some (CHR 0x22)
      else if e = CHR 0x5C then Some (CHR 0x5C)
      else if e = CHR ''/'' then Some (CHR ''/'')
      else if e = CHR ''b'' then Some (CHR 0x08)
      else if e = CHR ''f'' then Some (CHR 0x0C)
      else if e = CHR ''n'' then Some (CHR 0x0A)
      else if e = CHR ''r'' then Some (CHR 0x0D)
      else if e = CHR ''t'' then Some (CHR 0x09)
      else None)"

definition cons_result :: "'a \<Rightarrow> ('a list \<times> 'b) option \<Rightarrow> ('a list \<times> 'b) option" where
  "cons_result x r = (case r of None \<Rightarrow> None | Some (xs, t) \<Rightarrow> Some (x # xs, t))"

text \<open>The text of a string after its opening quote, up to the closing quote.\<close>

fun scan_string :: "string \<Rightarrow> (string \<times> string) option" where
  "scan_string [] = None"
| "scan_string (c # cs) =
     (if c = CHR 0x22 then Some ([], cs)
      else if c = CHR 0x5C then
        (case cs of
           [] \<Rightarrow> None
         | e # r \<Rightarrow>
             if e = CHR ''u'' then
               (case r of
                  h1 # h2 # h3 # h4 # r' \<Rightarrow>
                    (case (hex_val h1, hex_val h2, hex_val h3, hex_val h4) of
                       (Some a, Some b, Some c', Some d) \<Rightarrow>
                         (let n = ((a * 16 + b) * 16 + c') * 16 + d
                          in if n < 256 then cons_result (char_of n) (scan_string r') else None)
                     | _ \<Rightarrow> None)
                | _ \<Rightarrow> None)
             else (case unescape e of
                     None \<Rightarrow> None
                   | Some x \<Rightarrow> cons_result x (scan_string r)))
      else if (of_char c :: nat) < 32 then None
      else cons_result c (scan_string cs))"

definition is_float_tail :: "string \<Rightarrow> bool" where
  "is_float_tail r =
     (case r of
        [] \<Rightarrow> False
      | c # r' \<Rightarrow>
          if c = CHR ''.'' then (case r' of [] \<Rightarrow> False | d # _ \<Rightarrow> is_digit d)
          else if c = CHR ''e'' \<or> c = CHR ''E'' then
            (case r' of
               [] \<Rightarrow> False
             | d # r'' \<Rightarrow>
                 if is_sign d then (case r'' of [] \<Rightarrow> False | d' # _ \<Rightarrow> is_digit d')
                 else is_digit d)
          else False)"

definition parse_number :: "string \<Rightarrow> (json \<times> string) option" where
  "parse_number s =
     (let neg = (s \<noteq> [] \<and> hd s = CHR ''-'');
          r = (if neg then tl s else s)
      in (case r of
            [] \<Rightarrow> None
          | d # r' \<Rightarrow>
              if \<not> is_digit d then None
              else
                (let ds = (if d = CHR ''0'' then [d] else d # takeWhile is_digit r');
                     rest = drop (length ds) r
                 in if is_float_tail rest then None
                    else Some (JInt ((if neg then - 1 else 1) * int (digits_value ds)), rest))))"

text \<open>
  The pairs of an object become a dictionary: a repeated key keeps its first position
  and takes the last value.
\<close>

fun dict_set :: "'k \<Rightarrow> 'v \<Rightarrow> ('k \<times> 'v) list \<Rightarrow> ('k \<times> 'v) list" where
  "dict_set k v [] = [(k, v)]"
| "dict_set k v ((k', v') # d) = (if k' = k then (k, v) # d else (k', v') # dict_set k v d)"

definition dict_of_pairs :: "(string \<times> json) list \<Rightarrow> pydict" where
  "dict_of_pairs ps = foldl (\<lambda>d (k, v). dict_set k v d) [] ps"

fun parse_value :: "nat \<Rightarrow> string \<Rightarrow> (json \<times> string) option"
  and parse_elems :: "nat \<Rightarrow> string \<Rightarrow> (json list \<times> string) option"
  and parse_members :: "nat \<Rightarrow> string \<Rightarrow> ((string \<times> json) list \<times> string) option"
where
  "parse_value 0 s = None"
| "parse_value (Suc n) s =
     (case s of
        [] \<Rightarrow> None
      | c # r \<Rightarrow>
          if c = CHR 0x22 then
            (case scan_string r of None \<Rightarrow> None | Some (x, t) \<Rightarrow> Some (JStr x, t))
          else if c = CHR ''{'' then
            (case skip_ws r of
               [] \<Rightarrow> None
             | c' # r' \<Rightarrow>
                 if c' = CHR ''}'' then Some (JObj [], r')
                 else (case parse_members n (c' # r') of
                         None \<Rightarrow> None
                       | Some (ps, t) \<Rightarrow> Some (JObj (dict_of_pairs ps), t)))
          else if c = CHR ''['' then
            (case skip_ws r of
               [] \<Rightarrow> None
             | c' # r' \<Rightarrow>
                 if c' = CHR '']'' then Some (JList [], r')
                 else (case parse_elems n (c' # r') of
                         None \<Rightarrow> None
                       | Some (xs, t) \<Rightarrow> Some (JList xs, t)))
          else if take 4 s = ''null'' then Some (JNull, drop 4 s)
          else if take 4 s = ''true'' then Some (JBool True, drop 4 s)
          else if take 5 s = ''false'' then Some (JBool False, drop 5 s)
          else parse_number s)"
| "parse_elems 0 s = None"
| "parse_elems (Suc n) s =
     (case parse_value n s of
        None \<Rightarrow> None
      | Some (v, r) \<Rightarrow>
          (case skip_ws r of
             [] \<Rightarrow> None
           | c # r' \<Rightarrow>
               if c = CHR '']'' then Some ([v], r')
               else if c = CHR '','' then cons_result v (parse_elems n (skip_ws r'))
               else None))"
| "parse_members 0 s = None"
| "parse_members (Suc n) s =
     (case s of
        [] \<Rightarrow> None
      | q # r \<Rightarrow>
          if q \<noteq> CHR 0x22 then None
          else
            (case scan_string r of
               None \<Rightarrow> None
             | Some (k, r1) \<Rightarrow>
                 (case skip_ws r1 of
                    [] \<Rightarrow> None
                  | c # r2 \<Rightarrow>
                      if c \<noteq> CHR '':'' then None
                      else
                        (case parse_value n (skip_ws r2) of
                           None \<Rightarrow> None
                         | Some (v, r3) \<Rightarrow>
                             (case skip_ws r3 of
                                [] \<Rightarrow> None
                              | c' # r4 \<Rightarrow>
                                  if c' = CHR ''}'' then Some ([(k, v)], r4)
                                  else if c' = CHR '','' then
                                    cons_result (k, v) (parse_members n (skip_ws r4))
                                  else None)))))"

definition json_loads :: "string \<Rightarrow> py_error + json" where
  "json_loads s =
     (case parse_value (Suc (length s)) (skip_ws s) of
        None \<Rightarrow> Inl JSONDecodeError
      | Some (v, r) \<Rightarrow> if skip_ws r = [] then Inr v else Inl JSONDecodeError)"

section \<open>Bytes\<close>

type_synonym byte = "8 word"

text \<open>
  \<open>str.encode('utf-8')\<close> and \<open>bytes.decode('utf-8')\<close> for code points below 256: one
  byte below 128, two bytes from 128 on. A byte sequence that is not UTF-8 raises
  \<open>UnicodeDecodeError\<close>; one that encodes a code point above 255 has no string in this
  model and is reported the same way.
\<close>

definition utf8_char :: "char \<Rightarrow> byte list" where
  "utf8_char c =
     (let n = (of_char c :: nat)
      in if n < 128 then [of_nat n] else [of_nat (192 + n div 64), of_nat (128 + n mod 64)])"

definition utf8_encode :: "string \<Rightarrow> byte list" where
  "utf8_encode s = concat (map utf8_char s)"

fun utf8_decode :: "byte list \<Rightarrow> py_error + string" where
  "utf8_decode [] = Inr []"
| "utf8_decode (b # bs) =
     (if unat b < 128 then
        (case utf8_decode bs of Inl e \<Rightarrow> Inl e | Inr s \<Rightarrow> Inr (char_of (unat b) # s))
      else if unat b = 194 \<or> unat b = 195 then
        (case bs of
           [] \<Rightarrow> Inl UnicodeDecodeError
         | b2 # bs' \<Rightarrow>
             if 128 \<le> unat b2 \<and> unat b2 < 192 then
               (case utf8_decode bs' of
                  Inl e \<Rightarrow> Inl e
                | Inr s \<Rightarrow> Inr (char_of ((unat b - 192) * 64 + (unat b2 - 128)) # s))
             else Inl UnicodeDecodeError)
      else Inl UnicodeDecodeError)"

text \<open>\<open>n.to_bytes(4, 'big')\<close> raises \<open>OverflowError\<close> from \<open>2^32\<close> on.\<close>

definition to_bytes4 :: "nat \<Rightarrow> py_error + byte list" where
  "to_bytes4 n =
     (if n < 2 ^ 32
      then Inr [of_nat (n div 2 ^ 24), of_nat (n div 2 ^ 16), of_nat (n div 2 ^ 8), of_nat n]
      else Inl OverflowError)"

definition from_bytes :: "byte list \<Rightarrow> nat" where
  "from_bytes bs = foldl (\<lambda>a b. a * 256 + unat b) 0 bs"

section \<open>network/connection.py\<close>

text \<open>
  The socket of a connection. \<open>sent\<close> is what \<open>sendall\<close> has written so far;
  \<open>writable\<close> is false when writing raises \<open>OSError\<close> (a broken pipe). \<open>rx\<close> is the
  bytes that arrive from the peer and are not read yet; \<open>rx_chunks\<close> bounds what each
  coming \<open>recv\<close> call delivers at most (a partial read), and when \<open>rx\<close> is used up
  \<open>recv\<close> returns the empty bytes if the peer has closed and times out otherwise.
\<close>

record Socket =
  sent :: "byte list"
  writable :: bool
  rx :: "byte list"
  rx_chunks :: "nat list"
  peer_closed :: bool

definition sendall :: "byte list \<Rightarrow> Socket \<Rightarrow> py_error + Socket" where
  "sendall bs s = (if writable s then Inr (s\<lparr>sent := sent s @ bs\<rparr>) else Inl OSError)"

definition recv :: "nat \<Rightarrow> Socket \<Rightarrow> py_error + (byte list \<times> Socket)" where
  "recv n s =
     (if rx s = [] then (if peer_closed s then Inr ([], s) else Inl SocketTimeout)
      else
        (let k = (case rx_chunks s of [] \<Rightarrow> n | c # _ \<Rightarrow> min n (max 1 c))
         in Inr (take k (rx s), s\<lparr>rx := drop k (rx s), rx_chunks := tl (rx_chunks s)\<rparr>)))"

record ConnectionHandler =
  conn_port :: int
  certfile :: string
  keyfile :: string
  socket :: "Socket option"

text \<open>
  The message of \<open>send_message\<close>; \<open>now\<close> is \<open>datetime.now(timezone.utc)\<close>.
\<close>

definition build_message :: "datetime \<Rightarrow> json \<Rightarrow> json \<Rightarrow> json" where
  "build_message now msg_type data =
     JObj [(''msg_type'', msg_type), (''data'', data), (''timestamp'', JStr (isoformat now))]"

definition send_message ::
  "datetime \<Rightarrow> json \<Rightarrow> json \<Rightarrow> ConnectionHandler \<Rightarrow> bool \<times> ConnectionHandler" where
  "send_message now msg_type data h =
     (case socket h of
        None \<Rightarrow> (False, h)
      | Some s \<Rightarrow>
          (let json_bytes = utf8_encode (json_dumps (build_message now msg_type data))
           in (case to_bytes4 (length json_bytes) of
                 Inl e \<Rightarrow> (False, h)
               | Inr length_bytes \<Rightarrow>
                   (case sendall length_bytes s of
                      Inl e \<Rightarrow> (False, h)
                    | Inr s1 \<Rightarrow>
                        (case sendall json_bytes s1 of
                           Inl e \<Rightarrow> (False, h\<lparr>socket := Some s1\<rparr>)
                         | Inr s2 \<Rightarrow> (True, h\<lparr>socket := Some s2\<rparr>))))))"

text \<open>
  A call \<open>handler.send_message(*args)\<close> with positional arguments: the method has the
  two parameters \<open>msg_type\<close> and \<open>data\<close>, and a call with another number of arguments
  raises \<open>TypeError\<close> before the body runs.
\<close>

definition call_send_message ::
  "datetime \<Rightarrow> json list \<Rightarrow> ConnectionHandler \<Rightarrow> py_error + (bool \<times> ConnectionHandler)" where
  "call_send_message now args h =
     (case args of
        [msg_type, data] \<Rightarrow> Inr (send_message now msg_type data h)
      | _ \<Rightarrow> Inl TypeError)"

text \<open>
  The two reading loops of \<open>receive_message\<close>: \<open>recv\<close> until \<open>need\<close> bytes are there.
  The result is the bytes, \<open>None\<close> when the peer closed the connection first, or the
  exception \<open>recv\<close> raised.
\<close>

function recv_loop ::
  "nat \<Rightarrow> byte list \<Rightarrow> Socket \<Rightarrow> (py_error + byte list option) \<times> Socket" where
  "recv_loop need acc s =
     (if need \<le> length acc then (Inr (Some acc), s)
      else (case recv (need - length acc) s of
              Inl e \<Rightarrow> (Inl e, s)
            | Inr (chunk, s') \<Rightarrow>
                if chunk = [] then (Inr None, s')
                else recv_loop need (acc @ chunk) s'))"
  by pat_completeness auto
termination
  by (relation "measure (\<lambda>(need, acc, s). need - length acc)") (auto simp: neq_Nil_conv)

declare recv_loop.simps [simp del]

definition MAX_MESSAGE_LENGTH :: nat where
  "MAX_MESSAGE_LENGTH = 1024 * 1024"

text \<open>
  \<open>receive_message\<close> returns the message or \<open>None\<close>. The debug line after
  \<open>json.loads\<close> calls \<open>message.get\<close>, which only a dictionary has: for any other decoded
  value the \<open>AttributeError\<close> is caught and the result is \<open>None\<close>.
\<close>

definition receive_message :: "ConnectionHandler \<Rightarrow> json option \<times> ConnectionHandler" where
  "receive_message h =
     (case socket h of
        None \<Rightarrow> (None, h)
      | Some s \<Rightarrow>
          (case recv_loop 4 [] s of
             (Inl e, s1) \<Rightarrow> (None, h\<lparr>socket := Some s1\<rparr>)
           | (Inr None, s1) \<Rightarrow> (None, h\<lparr>socket := Some s1\<rparr>)
           | (Inr (Some length_bytes), s1) \<Rightarrow>
               (let len = from_bytes length_bytes
                in if len \<le> 0 \<or> len > MAX_MESSAGE_LENGTH then (None, h\<lparr>socket := Some s1\<rparr>)
                   else
                     (case recv_loop len [] s1 of
                        (Inl e, s2) \<Rightarrow> (None, h\<lparr>socket := Some s2\<rparr>)
                      | (Inr None, s2) \<Rightarrow> (None, h\<lparr>socket := Some s2\<rparr>)
                      | (Inr (Some json_bytes), s2) \<Rightarrow>
                          (case utf8_decode json_bytes of
                             Inl e \<Rightarrow> (None, h\<lparr>socket := Some s2\<rparr>)
                           | Inr json_str \<Rightarrow>
                               (case json_loads json_str of
                                  Inl e \<Rightarrow> (None, h\<lparr>socket := Some s2\<rparr>)
                                | Inr (JObj d) \<Rightarrow> (Some (JObj d), h\<lparr>socket := Some s2\<rparr>)
                                | Inr _ \<Rightarrow> (None, h\<lparr>socket := Some s2\<rparr>)))))))"

text \<open>\<open>close\<close>: shut the socket down and forget it; nothing to do without a socket.\<close>

definition close :: "ConnectionHandler \<Rightarrow> ConnectionHandler" where
  "close h = h\<lparr>socket := None\<rparr>"

section \<open>relay/input_relay.py\<close>

record RelayConfig =
  max_queue_size :: int
  max_retries :: int
  retry_delay_ms :: int
  enable_encryption :: bool
  batch_size :: int
  batch_timeout_ms :: int
  log_events :: bool
  enable_metrics :: bool

record RelayMetrics =
  events_received :: int
  events_forwarded :: int
  events_failed :: int
  bytes_sent :: int
  bytes_received :: int
  avg_latency_ms :: rat

text \<open>
  The relay. \<open>event_queue\<close> is the \<open>queue.Queue(maxsize=max_queue_size)\<close>, oldest
  element first. The two callbacks are optional; \<open>forwarded_calls\<close> and \<open>failed_calls\<close>
  list the events they have been called with. Latencies are rationals here (floats in
  the source).
\<close>

record InputRelay =
  connection :: "ConnectionHandler option"
  config :: RelayConfig
  event_queue :: "InputEvent list"
  batch_buffer :: "InputEvent list"
  is_running :: bool
  metrics :: RelayMetrics
  latencies :: "rat list"
  on_event_forwarded :: bool
  on_event_failed :: bool
  forwarded_calls :: "InputEvent list"
  failed_calls :: "InputEvent list"

text \<open>
  \<open>Queue.put_nowait\<close> raises \<open>queue.Full\<close> when \<open>maxsize > 0\<close> and the queue holds
  \<open>maxsize\<close> items; a queue with \<open>maxsize \<le> 0\<close> is unbounded.
\<close>

definition queue_full :: "int \<Rightarrow> 'a list \<Rightarrow> bool" where
  "queue_full maxsize q = (0 < maxsize \<and> maxsize \<le> int (length q))"

definition queue_event :: "InputEvent \<Rightarrow> InputRelay \<Rightarrow> bool \<times> InputRelay" where
  "queue_event event r =
     (if \<not> is_running r then (False, r)
      else if queue_full (max_queue_size (config r)) (event_queue r)
      then (False, r\<lparr>metrics := (metrics r)\<lparr>events_failed := events_failed (metrics r) + 1\<rparr>\<rparr>)
      else (True, r\<lparr>event_queue := event_queue r @ [event],
                     metrics := (metrics r)\<lparr>events_received := events_received (metrics r) + 1\<rparr>\<rparr>))"

text \<open>A producer calling \<open>queue_event\<close> once per event, collecting the results in order.\<close>

fun queue_events :: "InputEvent list \<Rightarrow> InputRelay \<Rightarrow> bool list \<times> InputRelay" where
  "queue_events [] r = ([], r)"
| "queue_events (e # es) r =
     (let (ok, r') = queue_event e r; (oks, r'') = queue_events es r' in (ok # oks, r''))"

text \<open>
  The bookkeeping of a successful attempt in \<open>_forward_event\<close>; \<open>lat\<close> is the latency
  the two clock readings give.
\<close>

definition record_forward :: "rat \<Rightarrow> string \<Rightarrow> ConnectionHandler \<Rightarrow> InputRelay \<Rightarrow> InputRelay" where
  "record_forward lat event_json h r =
     (let ls = latencies r @ [lat];
          ls' = (if length ls > 100 then tl ls else ls)
      in r\<lparr>connection := Some h,
           latencies := ls',
           metrics := (metrics r)\<lparr>
             bytes_sent := bytes_sent (metrics r) + int (length (utf8_encode event_json)),
             avg_latency_ms := sum_list ls' / of_nat (length ls')\<rparr>\<rparr>)"

text \<open>
  The retry loop of \<open>_forward_event\<close>, over the attempts that are left. The call passes
  one dictionary to \<open>send_message\<close>; any exception of an attempt leads to the next one.
\<close>

fun forward_attempts ::
  "nat \<Rightarrow> datetime \<Rightarrow> rat \<Rightarrow> InputEvent \<Rightarrow> ConnectionHandler \<Rightarrow> InputRelay \<Rightarrow> bool \<times> InputRelay" where
  "forward_attempts 0 now lat event h r = (False, r)"
| "forward_attempts (Suc n) now lat event h r =
     (let event_dict = to_dict event;
          event_json = json_dumps (JObj event_dict)
      in (case call_send_message now
                 [JObj [(''type'', JStr ''INPUT_EVENT''), (''payload'', JObj event_dict)]] h of
            Inl e \<Rightarrow> forward_attempts n now lat event h r
          | Inr (sent_ok, h') \<Rightarrow> (True, record_forward lat event_json h' r)))"

definition forward_event :: "datetime \<Rightarrow> rat \<Rightarrow> InputEvent \<Rightarrow> InputRelay \<Rightarrow> bool \<times> InputRelay" where
  "forward_event now lat event r =
     (case connection r of
        None \<Rightarrow> (False, r)
      | Some h \<Rightarrow> forward_attempts (nat (max_retries (config r))) now lat event h r)"

text \<open>The loop of \<open>_flush_batch\<close> over the copied batch.\<close>

fun forward_all :: "datetime \<Rightarrow> rat \<Rightarrow> InputEvent list \<Rightarrow> InputRelay \<Rightarrow> InputRelay" where
  "forward_all now lat [] r = r"
| "forward_all now lat (event # events) r =
     (let (success, r1) = forward_event now lat event r;
          r2 = (if success
                then r1\<lparr>metrics := (metrics r1)\<lparr>events_forwarded := events_forwarded (metrics r1) + 1\<rparr>,
                        forwarded_calls :=
                          (if on_event_forwarded r1 then forwarded_calls r1 @ [event]
                           else forwarded_calls r1)\<rparr>
                else r1\<lparr>metrics := (metrics r1)\<lparr>events_failed := events_failed (metrics r1) + 1\<rparr>,
                        failed_calls :=
                          (if on_event_failed r1 then failed_calls r1 @ [event]
                           else failed_calls r1)\<rparr>)
      in forward_all now lat events r2)"

definition flush_batch :: "datetime \<Rightarrow> rat \<Rightarrow> InputRelay \<Rightarrow> InputRelay" where
  "flush_batch now lat r =
     (if batch_buffer r = [] then r
      else forward_all now lat (batch_buffer r) (r\<lparr>batch_buffer := []\<rparr>))"

definition add_to_batch :: "InputEvent \<Rightarrow> InputRelay \<Rightarrow> InputRelay" where
  "add_to_batch event r = r\<lparr>batch_buffer := batch_buffer r @ [event]\<rparr>"

text \<open>
  One turn of the loop of \<open>_relay_loop\<close>: \<open>get\<close> takes the oldest queued event, or
  times out on an empty queue (\<open>queue.Empty\<close>), which flushes a batch that is not empty.
\<close>

definition relay_step :: "datetime \<Rightarrow> rat \<Rightarrow> InputRelay \<Rightarrow> InputRelay" where
  "relay_step now lat r =
     (case event_queue r of
        [] \<Rightarrow> (if batch_buffer r \<noteq> [] then flush_batch now lat r else r)
      | event # q \<Rightarrow>
          (let r1 = add_to_batch event (r\<lparr>event_queue := q\<rparr>)
           in if int (length (batch_buffer r1)) \<ge> batch_size (config r1)
              then flush_batch now lat r1 else r1))"

text \<open>\<open>n\<close> turns of the loop while the relay is running.\<close>

fun relay_loop :: "nat \<Rightarrow> datetime \<Rightarrow> rat \<Rightarrow> InputRelay \<Rightarrow> InputRelay" where
  "relay_loop 0 now lat r = r"
| "relay_loop (Suc n) now lat r =
     (if is_running r then relay_loop n now lat (relay_step now lat r) else r)"

section \<open>models/repositories.py and models/schema.py\<close>

text \<open>
  The table \<open>devices\<close> is the list of its rows, a row being the device it stores. The
  schema constrains it: \<open>id\<close> is the primary key, \<open>mac_address\<close> is unique, and
  \<open>port\<close> lies between 1024 and 65535; a statement that would break a constraint
  raises \<open>IntegrityError\<close> and changes nothing. \<open>read\<close> builds a \<open>Device\<close> from the
  row, which runs the validation of the constructor.
\<close>

type_synonym Database = "Device list"

definition port_check :: "Device \<Rightarrow> bool" where
  "port_check d = (1024 \<le> port d \<and> port d \<le> 65535)"

definition repo_create :: "Device \<Rightarrow> Database \<Rightarrow> py_error + Database" where
  "repo_create device db =
     (if list_ex (\<lambda>r. dev_id r = dev_id device \<or> mac_address r = mac_address device) db
         \<or> \<not> port_check device
      then Inl IntegrityError
      else Inr (db @ [device]))"

definition repo_read :: "string \<Rightarrow> Database \<Rightarrow> py_error + Device option" where
  "repo_read device_id db =
     (case find (\<lambda>r. dev_id r = device_id) db of
        None \<Rightarrow> Inr None
      | Some row \<Rightarrow> (case Device_post_init row of Inl e \<Rightarrow> Inl e | Inr d \<Rightarrow> Inr (Some d)))"

definition repo_update :: "Device \<Rightarrow> Database \<Rightarrow> py_error + Database" where
  "repo_update device db =
     (if list_ex (\<lambda>r. dev_id r = dev_id device) db \<and>
         (list_ex (\<lambda>r. dev_id r \<noteq> dev_id device \<and> mac_address r = mac_address device) db
          \<or> \<not> port_check device)
      then Inl IntegrityError
      else Inr (map (\<lambda>r. if dev_id r = dev_id device
                            then device\<lparr>created_at := created_at r\<rparr> else r) db))"

section \<open>network/discovery.py\<close>

text \<open>
  What \<open>zeroconf.get_service_info\<close> returns for a service name: the TXT properties
  (a value may be absent), the parsed addresses and the port.
\<close>

record ServiceInfo =
  properties :: "(string \<times> byte list option) list"
  parsed_addresses :: "string list"
  info_port :: int

text \<open>
  The service. \<open>discovered_devices\<close> is the dictionary from device id to device, in
  insertion order. A listener is known by its number; \<open>calls\<close> lists the calls made to
  the listeners so far, each with the listener, the event type and the device. A
  listener that raises is caught at the call and changes nothing.
\<close>

record DiscoveryService =
  local_device :: Device
  db :: Database
  discovered_devices :: "(string \<times> Device) list"
  listeners :: "nat list"
  running :: bool
  calls :: "(nat \<times> string \<times> Device) list"

definition DiscoveryService_init :: "Device \<Rightarrow> Database \<Rightarrow> DiscoveryService" where
  "DiscoveryService_init local database =
     \<lparr>local_device = local, db = database, discovered_devices = [], listeners = [],
      running = False, calls = []\<rparr>"

definition OFFLINE_THRESHOLD :: int where
  "OFFLINE_THRESHOLD = 60"

definition add_listener :: "nat \<Rightarrow> DiscoveryService \<Rightarrow> DiscoveryService" where
  "add_listener callback svc = svc\<lparr>listeners := listeners svc @ [callback]\<rparr>"

definition notify :: "string \<Rightarrow> Device \<Rightarrow> DiscoveryService \<Rightarrow> DiscoveryService" where
  "notify event device svc =
     svc\<lparr>calls := calls svc @ map (\<lambda>listener. (listener, event, device)) (listeners svc)\<rparr>"

text \<open>\<open>properties.get(key, default).decode()\<close>.\<close>

definition prop_str :: "string \<Rightarrow> string \<Rightarrow> ServiceInfo \<Rightarrow> py_error + string" where
  "prop_str key dflt info =
     (case map_of (properties info) key of
        None \<Rightarrow> Inr dflt
      | Some None \<Rightarrow> Inl AttributeError
      | Some (Some bs) \<Rightarrow> utf8_decode bs)"

text \<open>
  \<open>name.split("._kms")[0] if "._kms" in name else name\<close>: the text before the first
  \<open>._kms\<close>, the whole name when there is none.
\<close>

fun before_first :: "string \<Rightarrow> string \<Rightarrow> string" where
  "before_first sep [] = []"
| "before_first sep (c # cs) =
     (if take (length sep) (c # cs) = sep then [] else c # before_first sep cs)"

definition device_name_of :: "string \<Rightarrow> string" where
  "device_name_of service_name = before_first ''._kms'' service_name"

text \<open>
  \<open>DeviceOS[os_name.upper()]\<close> and \<open>DeviceRole[role.upper()]\<close> look a member up by its
  name and fall back to a default. Only ASCII letters change here under \<open>upper\<close>; no
  other character below 256 becomes a letter of a member name.
\<close>

definition upper_char :: "char \<Rightarrow> char" where
  "upper_char c = (if c \<in> set ''abcdefghijklmnopqrstuvwxyz'' then char_of (of_char c - (32::nat)) else c)"

definition parse_os :: "string \<Rightarrow> DeviceOS" where
  "parse_os os_name =
     (let u = map upper_char os_name
      in if u = ''WINDOWS'' then WINDOWS else if u = ''MACOS'' then MACOS else WINDOWS)"

definition parse_role :: "string \<Rightarrow> DeviceRole" where
  "parse_role r =
     (let u = map upper_char r
      in if u = ''MASTER'' then MASTER else if u = ''CLIENT'' then CLIENT
         else if u = ''UNASSIGNED'' then UNASSIGNED else UNASSIGNED)"

text \<open>
  The part of \<open>_on_device_added\<close> under the lock: an existing row is updated and its
  device is the one stored, otherwise the new device is created.
\<close>

definition store_device ::
  "datetime \<Rightarrow> string \<Rightarrow> string option \<Rightarrow> Device \<Rightarrow> DiscoveryService \<Rightarrow> py_error + (Device \<times> DiscoveryService)" where
  "store_device now device_id ip device svc =
     (case repo_read device_id (db svc) of
        Inl e \<Rightarrow> Inl e
      | Inr (Some existing) \<Rightarrow>
          (let existing' = existing\<lparr>ip_address := ip, is_registered := True, last_seen := now\<rparr>
           in (case repo_update existing' (db svc) of
                 Inl e \<Rightarrow> Inl e
               | Inr db' \<Rightarrow>
                   Inr (existing',
                        svc\<lparr>db := db',
                            discovered_devices :=
                              dict_set device_id existing' (discovered_devices svc)\<rparr>)))
      | Inr None \<Rightarrow>
          (case repo_create device (db svc) of
             Inl e \<Rightarrow> Inl e
           | Inr db' \<Rightarrow>
               Inr (device,
                    svc\<lparr>db := db',
                        discovered_devices :=
                          dict_set device_id device (discovered_devices svc)\<rparr>)))"

text \<open>
  \<open>_on_device_added\<close>. Every exception inside is caught by the handler around the body,
  which leaves the service as it is.
\<close>

definition on_device_added ::
  "datetime \<Rightarrow> ServiceInfo option \<Rightarrow> string \<Rightarrow> DiscoveryService \<Rightarrow> DiscoveryService" where
  "on_device_added now info_opt service_name svc =
     (case info_opt of
        None \<Rightarrow> svc
      | Some info \<Rightarrow>
     (case prop_str ''device_id'' [] info of Inl e \<Rightarrow> svc | Inr device_id \<Rightarrow>
     (case prop_str ''os'' ''Windows'' info of Inl e \<Rightarrow> svc | Inr os_name \<Rightarrow>
     (case prop_str ''version'' ''1.0.0'' info of Inl e \<Rightarrow> svc | Inr ver \<Rightarrow>
     (case prop_str ''role'' ''UNASSIGNED'' info of Inl e \<Rightarrow> svc | Inr role_name \<Rightarrow>
       (let ip = (case parsed_addresses info of [] \<Rightarrow> None | a # _ \<Rightarrow> Some a)
        in if device_id = dev_id (local_device svc) then svc
           else
             (case Device_post_init
                     \<lparr>dev_id = device_id, mac_address = [], name = device_name_of service_name,
                      os = parse_os os_name, role = parse_role role_name, ip_address = ip,
                      port = info_port info, version = ver, is_registered = True,
                      created_at = now, last_seen = now\<rparr> of
                Inl e \<Rightarrow> svc
              | Inr device \<Rightarrow>
                  (case store_device now device_id ip device svc of
                     Inl e \<Rightarrow> svc
                   | Inr (device', svc') \<Rightarrow> notify ''device_added'' device' svc'))))))))"

text \<open>
  \<open>_on_device_removed\<close>: the first discovered device with that name is deleted from
  the dictionary, marked, written back and reported. An exception of the update leaves
  the deletion in place and skips the listeners.
\<close>

definition on_device_removed :: "string \<Rightarrow> DiscoveryService \<Rightarrow> DiscoveryService" where
  "on_device_removed service_name svc =
     (case find (\<lambda>(device_id, device). name device = device_name_of service_name)
             (discovered_devices svc) of
        None \<Rightarrow> svc
      | Some (device_id, device) \<Rightarrow>
          (let svc1 = svc\<lparr>discovered_devices :=
                            filter (\<lambda>(k, d). k \<noteq> device_id) (discovered_devices svc)\<rparr>;
               device' = device\<lparr>is_registered := False\<rparr>
           in (case repo_update device' (db svc1) of
                 Inl e \<Rightarrow> svc1
               | Inr db' \<Rightarrow> notify ''device_removed'' device' (svc1\<lparr>db := db'\<rparr>))))"

definition on_device_updated ::
  "datetime \<Rightarrow> ServiceInfo option \<Rightarrow> string \<Rightarrow> DiscoveryService \<Rightarrow> DiscoveryService" where
  "on_device_updated now info_opt service_name svc =
     on_device_added now info_opt service_name (on_device_removed service_name svc)"

text \<open>
  One sweep of \<open>check_offline_loop\<close> over the snapshot of the dictionary. The result
  carries the exception that ended the sweep early, if any; the loop logs it and goes on
  to sleep. Marking a device changes the object the dictionary holds.
\<close>

fun sweep_devices ::
  "datetime \<Rightarrow> (string \<times> Device) list \<Rightarrow> DiscoveryService \<Rightarrow> py_error option \<times> DiscoveryService" where
  "sweep_devices now [] svc = (None, svc)"
| "sweep_devices now ((device_id, device) # rest) svc =
     (case dt_sub now (last_seen device) of
        Inl e \<Rightarrow> (Some e, svc)
      | Inr time_since_seen \<Rightarrow>
          if time_since_seen > OFFLINE_THRESHOLD * 1000000 \<and> is_registered device then
            (let device' = device\<lparr>is_registered := False\<rparr>;
                 svc1 = svc\<lparr>discovered_devices :=
                              dict_set device_id device' (discovered_devices svc)\<rparr>
             in (case repo_update device' (db svc1) of
                   Inl e \<Rightarrow> (Some e, svc1)
                 | Inr db' \<Rightarrow>
                     sweep_devices now rest (notify ''device_offline'' device' (svc1\<lparr>db := db'\<rparr>))))
          else sweep_devices now rest svc)"

definition check_offline :: "datetime \<Rightarrow> DiscoveryService \<Rightarrow> py_error option \<times> DiscoveryService" where
  "check_offline now svc = sweep_devices now (discovered_devices svc) svc"

text \<open>The sweeps of \<open>check_offline_loop\<close> at the given times, while the service runs.\<close>

fun check_offline_loop :: "datetime list \<Rightarrow> DiscoveryService \<Rightarrow> DiscoveryService" where
  "check_offline_loop [] svc = svc"
| "check_offline_loop (now # later) svc =
     (if running svc then check_offline_loop later (snd (check_offline now svc)) else svc)"

text \<open>What happens to a service, and a run of such events from its creation.\<close>

datatype discovery_event =
    AddListener nat
  | SetRunning bool
  | ServiceAdded datetime "ServiceInfo option" string
  | ServiceRemoved string
  | ServiceUpdated datetime "ServiceInfo option" string
  | Sweep datetime

fun discovery_step :: "discovery_event \<Rightarrow> DiscoveryService \<Rightarrow> DiscoveryService" where
  "discovery_step (AddListener callback) svc = add_listener callback svc"
| "discovery_step (SetRunning b) svc = svc\<lparr>running := b\<rparr>"
| "discovery_step (ServiceAdded now info sname) svc = on_device_added now info sname svc"
| "discovery_step (ServiceRemoved sname) svc = on_device_removed sname svc"
| "discovery_step (ServiceUpdated now info sname) svc = on_device_updated now info sname svc"
| "discovery_step (Sweep now) svc = check_offline_loop [now] svc"

definition discovery_run :: "discovery_event list \<Rightarrow> DiscoveryService \<Rightarrow> DiscoveryService" where
  "discovery_run events svc = foldl (\<lambda>s e. discovery_step e s) svc events"

text \<open>
  The local identity is reported nowhere: no key and no device of the dictionary, and
  no device passed to a listener, has the id of the local device.
\<close>

definition no_self :: "DiscoveryService \<Rightarrow> bool" where
  "no_self svc =
     (list_all (\<lambda>(k, d). k \<noteq> dev_id (local_device svc) \<and> dev_id d \<noteq> dev_id (local_device svc))
        (discovered_devices svc) \<and>
      list_all (\<lambda>(listener, event, d). dev_id d \<noteq> dev_id (local_device svc)) (calls svc))"



section \<open>Construction and sample values\<close>

text \<open>\<open>InputRelay.__init__\<close>, \<open>RelayConfig()\<close> with its defaults, and \<open>start\<close>.\<close>

definition RelayMetrics_init :: RelayMetrics where
  "RelayMetrics_init =
     \<lparr>events_received = 0, events_forwarded = 0, events_failed = 0, bytes_sent = 0,
      bytes_received = 0, avg_latency_ms = 0\<rparr>"

definition RelayConfig_default :: RelayConfig where
  "RelayConfig_default =
     \<lparr>max_queue_size = 1000, max_retries = 3, retry_delay_ms = 100, enable_encryption = True,
      batch_size = 10, batch_timeout_ms = 50, log_events = True, enable_metrics = True\<rparr>"

definition InputRelay_init :: "ConnectionHandler option \<Rightarrow> RelayConfig \<Rightarrow> InputRelay" where
  "InputRelay_init connection_handler cfg =
     \<lparr>connection = connection_handler, config = cfg, event_queue = [], batch_buffer = [],
      is_running = False, metrics = RelayMetrics_init, latencies = [],
      on_event_forwarded = False, on_event_failed = False,
      forwarded_calls = [], failed_calls = []\<rparr>"

definition start :: "InputRelay \<Rightarrow> bool \<times> InputRelay" where
  "start r = (if is_running r then (False, r) else (True, r\<lparr>is_running := True\<rparr>))"

definition sample_time :: datetime where
  "sample_time =
     \<lparr>year = 2024, month = 1, day = 15, hour = 10, minute = 30, second = 0,
      microsecond = 250000, tzoffset = Some 0\<rparr>"

definition sample_key_event :: "string \<Rightarrow> InputEvent" where
  "sample_key_event key =
     \<lparr>event_id = ''0b0e8400-e29b-41d4-a716-446655440001'', event_type = KEY_PRESS,
      source_device_id = ''550e8400-e29b-41d4-a716-446655440000'',
      target_device_id = ''660e8400-e29b-41d4-a716-446655440000'',
      payload = [(''keycode'', JStr key)], timestamp = sample_time, is_encrypted = True\<rparr>"

definition sample_socket :: Socket where
  "sample_socket = \<lparr>sent = [], writable = True, rx = [], rx_chunks = [], peer_closed = False\<rparr>"

definition sample_handler :: ConnectionHandler where
  "sample_handler =
     \<lparr>conn_port = 19999, certfile = ''cert.pem'', keyfile = ''key.pem'',
      socket = Some sample_socket\<rparr>"

text \<open>A started relay over the sample connection, with the given capacity and batch size.\<close>

definition sample_relay :: "int \<Rightarrow> int \<Rightarrow> InputRelay" where
  "sample_relay capacity batch =
     snd (start (InputRelay_init (Some sample_handler)
                   (RelayConfig_default\<lparr>max_queue_size := capacity, batch_size := batch\<rparr>)))"

definition sample_device :: "int \<Rightarrow> Device" where
  "sample_device p =
     \<lparr>dev_id = ''550e8400-e29b-41d4-a716-446655440000'', mac_address = ''aa:bb:cc:dd:ee:ff'',
      name = ''Test Laptop'', os = WINDOWS, role = UNASSIGNED, ip_address = None, port = p,
      version = ''1.0.0'', is_registered = False, created_at = sample_time,
      last_seen = sample_time\<rparr>"

text \<open>A started relay with three key events in its queue, batch size two.\<close>

definition sample_loaded_relay :: InputRelay where
  "sample_loaded_relay =
     snd (queue_events [sample_key_event ''A'', sample_key_event ''B'', sample_key_event ''C'']
            (sample_relay 1000 2))"

text \<open>
  A connection on which a frame announcing 1048577 bytes has arrived, followed by a
  frame of two bytes with the text \<open>{}\<close>.
\<close>

definition oversize_handler :: ConnectionHandler where
  "oversize_handler =
     sample_handler\<lparr>socket := Some (sample_socket\<lparr>
       rx := [0x00, 0x10, 0x00, 0x01, 0x00, 0x00, 0x00, 0x02, 0x7B, 0x7D],
       peer_closed := True\<rparr>)\<rparr>"






section \<open>Properties of the relay queue\<close>

lemma queue_events_accept:
  "is_running r \<Longrightarrow> 0 < max_queue_size (config r)
   \<Longrightarrow> int (length (event_queue r)) + int (length es) \<le> max_queue_size (config r)
   \<Longrightarrow> queue_events es r =
         (replicate (length es) True,
          r\<lparr>event_queue := event_queue r @ es,
            metrics := (metrics r)\<lparr>events_received := events_received (metrics r) + int (length es)\<rparr>\<rparr>)"
proof (induction es arbitrary: r)
  case Nil
  then show ?case by simp
next
  case (Cons e es)
  let ?r' = "r\<lparr>event_queue := event_queue r @ [e],
               metrics := (metrics r)\<lparr>events_received := events_received (metrics r) + 1\<rparr>\<rparr>"
  from Cons.prems have step: "queue_event e r = (True, ?r')"
    by (simp add: queue_event_def queue_full_def)
  from Cons.prems have "queue_events es ?r' =
         (replicate (length es) True,
          ?r'\<lparr>event_queue := event_queue ?r' @ es,
            metrics := (metrics ?r')\<lparr>events_received := events_received (metrics ?r') + int (length es)\<rparr>\<rparr>)"
    by (intro Cons.IH) simp_all
  with step show ?case by (simp add: add.commute add.left_commute)
qed

lemma queue_events_reject:
  "is_running r \<Longrightarrow> 0 < max_queue_size (config r)
   \<Longrightarrow> max_queue_size (config r) \<le> int (length (event_queue r))
   \<Longrightarrow> queue_events es r =
         (replicate (length es) False,
          r\<lparr>metrics := (metrics r)\<lparr>events_failed := events_failed (metrics r) + int (length es)\<rparr>\<rparr>)"
proof (induction es arbitrary: r)
  case Nil
  then show ?case by simp
next
  case (Cons e es)
  let ?r' = "r\<lparr>metrics := (metrics r)\<lparr>events_failed := events_failed (metrics r) + 1\<rparr>\<rparr>"
  from Cons.prems have step: "queue_event e r = (False, ?r')"
    by (simp add: queue_event_def queue_full_def)
  from Cons.prems have "queue_events es ?r' =
         (replicate (length es) False,
          ?r'\<lparr>metrics := (metrics ?r')\<lparr>events_failed := events_failed (metrics ?r') + int (length es)\<rparr>\<rparr>)"
    by (intro Cons.IH) simp_all
  with step show ?case by (simp add: add.commute add.left_commute)
qed

lemma queue_events_append:
  "queue_events (xs @ ys) r =
     (let (a, r') = queue_events xs r; (b, r'') = queue_events ys r' in (a @ b, r''))"
  by (induction xs arbitrary: r) (simp_all add: split_beta Let_def)

text \<open>
  C10. A call of \<open>queue_event\<close> on a relay that is not running returns false and leaves
  the relay as it was: nothing is queued and no counter of the metrics changes.
\<close>

theorem queue_event_not_running:
  "\<not> is_running r \<Longrightarrow> queue_event event r = (False, r)"
  by (simp add: queue_event_def)

theorem queue_event_not_running_witness:
  "\<not> is_running (InputRelay_init (Some sample_handler) RelayConfig_default) \<and>
   queue_event (sample_key_event ''A'') (InputRelay_init (Some sample_handler) RelayConfig_default)
     = (False, InputRelay_init (Some sample_handler) RelayConfig_default)"
proof -
  have nr: "\<not> is_running (InputRelay_init (Some sample_handler) RelayConfig_default)"
    by (simp add: InputRelay_init_def)
  from nr queue_event_not_running [OF nr] show ?thesis by simp
qed

text \<open>
  C5. A running relay with an empty queue of capacity \<open>C > 0\<close> receives \<open>C + M\<close> calls of
  \<open>queue_event\<close> and nothing is taken out meanwhile. The first \<open>C\<close> calls return true,
  the last \<open>M\<close> return false, the failure counter grows by exactly \<open>M\<close>, and the queue
  holds the first \<open>C\<close> events in order. Every call returns: the producer is not blocked.
\<close>

theorem queue_backpressure:
  assumes "is_running r" and "event_queue r = []"
    and "0 < max_queue_size (config r)"
    and "length es = nat (max_queue_size (config r)) + M"
  shows "fst (queue_events es r) = replicate (nat (max_queue_size (config r))) True @ replicate M False
    \<and> events_failed (metrics (snd (queue_events es r))) = events_failed (metrics r) + int M
    \<and> events_received (metrics (snd (queue_events es r)))
        = events_received (metrics r) + max_queue_size (config r)
    \<and> event_queue (snd (queue_events es r)) = take (nat (max_queue_size (config r))) es"
proof -
  define C where "C = nat (max_queue_size (config r))"
  define xs where "xs = take C es"
  define ys where "ys = drop C es"
  have es: "es = xs @ ys" by (simp add: xs_def ys_def)
  have lx: "length xs = C" using assms(4) by (simp add: xs_def C_def)
  have ly: "length ys = M" using assms(4) by (simp add: ys_def C_def)
  have Cpos: "int C = max_queue_size (config r)" using assms(3) by (simp add: C_def)
  let ?r1 = "r\<lparr>event_queue := event_queue r @ xs,
               metrics := (metrics r)\<lparr>events_received := events_received (metrics r) + int (length xs)\<rparr>\<rparr>"
  have first: "queue_events xs r = (replicate (length xs) True, ?r1)"
    using assms(1,2,3) lx Cpos by (intro queue_events_accept) simp_all
  have second: "queue_events ys ?r1 =
      (replicate (length ys) False,
       ?r1\<lparr>metrics := (metrics ?r1)\<lparr>events_failed := events_failed (metrics ?r1) + int (length ys)\<rparr>\<rparr>)"
    using assms(1,2,3) lx Cpos by (intro queue_events_reject) simp_all
  have "queue_events es r =
      (replicate C True @ replicate M False,
       ?r1\<lparr>metrics := (metrics ?r1)\<lparr>events_failed := events_failed (metrics ?r1) + int M\<rparr>\<rparr>)"
    unfolding es queue_events_append first using second lx ly by simp
  then show ?thesis
    using assms(2) lx Cpos by (simp add: C_def [symmetric] xs_def)
qed

theorem queue_backpressure_witness:
  "is_running (sample_relay 2 10) \<and> event_queue (sample_relay 2 10) = []
   \<and> 0 < max_queue_size (config (sample_relay 2 10))
   \<and> fst (queue_events [sample_key_event ''A'', sample_key_event ''B'', sample_key_event ''C'']
            (sample_relay 2 10)) = [True, True, False]
   \<and> events_failed (metrics (snd (queue_events
        [sample_key_event ''A'', sample_key_event ''B'', sample_key_event ''C''] (sample_relay 2 10)))) = 1"
proof -
  let ?r = "sample_relay 2 10"
  let ?es = "[sample_key_event ''A'', sample_key_event ''B'', sample_key_event ''C'']"
  have a: "is_running ?r" and b: "event_queue ?r = []" and c: "0 < max_queue_size (config ?r)"
    by (simp_all add: sample_relay_def start_def InputRelay_init_def RelayConfig_default_def)
  have d: "length ?es = nat (max_queue_size (config ?r)) + 1"
    by (simp add: sample_relay_def start_def InputRelay_init_def RelayConfig_default_def)
  have m: "max_queue_size (config ?r) = 2" "events_failed (metrics ?r) = 0"
    by (simp_all add: sample_relay_def start_def InputRelay_init_def RelayConfig_default_def
        RelayMetrics_init_def)
  from queue_backpressure [OF a b c d] a b c m show ?thesis
    by (simp add: numeral_2_eq_2)
qed



section \<open>Properties of device construction\<close>

lemma device_accepted_invariants:
  "Device_post_init d = Inr d' \<Longrightarrow>
     d' = d \<and> (mac_address d = [] \<or> validate_mac_address (mac_address d))
     \<and> 1 \<le> port d \<and> port d \<le> 65535 \<and> length (name d) \<le> 50"
  by (auto simp: Device_post_init_def validate_port_def validate_device_name_def
      split: if_splits)

text \<open>
  C2. The claim asks that a device whose port is below 1024 is refused. The constructor
  checks the port with \<open>validate_port\<close>, which accepts 1 to 65535: a device on port 80
  with a well-formed address and name is accepted.
\<close>

theorem device_port_80_accepted:
  "Device_post_init (sample_device 80) = Inr (sample_device 80)
   \<and> port (sample_device 80) < 1024"
  by (simp add: Device_post_init_def sample_device_def validate_uuid_def re_dollar_def
      match_classes_def uuid_pattern_def is_hex_digit_def is_dash_def validate_mac_address_def
      mac_pattern_def mac_sep_def validate_device_name_def name_char_def is_alpha_def
      is_digit_def is_space_def validate_port_def validate_os_type_def eval_nat_numeral)

section \<open>Properties of forwarding\<close>

lemma call_send_message_one_argument: "call_send_message now [x] h = Inl TypeError"
  by (simp add: call_send_message_def)

lemma forward_attempts_fail: "forward_attempts n now lat event h r = (False, r)"
  by (induction n) (simp_all add: call_send_message_one_argument Let_def)

lemma forward_event_fails: "forward_event now lat event r = (False, r)"
  by (simp add: forward_event_def forward_attempts_fail split: option.splits)

lemma forward_all_fails:
  "forward_all now lat events r =
     r\<lparr>metrics := (metrics r)\<lparr>events_failed := events_failed (metrics r) + int (length events)\<rparr>,
       failed_calls := (if on_event_failed r then failed_calls r @ events else failed_calls r)\<rparr>"
  by (induction events arbitrary: r) (simp_all add: forward_event_fails)

lemma flush_batch_fails:
  "flush_batch now lat r =
     r\<lparr>batch_buffer := [],
       metrics := (metrics r)\<lparr>events_failed := events_failed (metrics r) + int (length (batch_buffer r))\<rparr>,
       failed_calls := (if on_event_failed r then failed_calls r @ batch_buffer r
                        else failed_calls r)\<rparr>"
  by (simp add: flush_batch_def forward_all_fails)

lemma relay_step_forwards_nothing:
  "events_forwarded (metrics (relay_step now lat r)) = events_forwarded (metrics r)
   \<and> connection (relay_step now lat r) = connection r"
  by (simp add: relay_step_def flush_batch_fails add_to_batch_def Let_def split: list.splits)

text \<open>
  C1. The claim asks for \<open>events_forwarded = K\<close> after the loop has drained \<open>K\<close> queued
  events. \<open>_forward_event\<close> calls \<open>send_message\<close> with a single dictionary, the method
  takes a message type and a payload, so every attempt raises \<open>TypeError\<close> and is
  counted as failed: however many turns the loop takes, the forwarded counter stays
  where it was and the connection is not written to.
\<close>

theorem relay_forwards_nothing:
  "events_forwarded (metrics (relay_loop n now lat r)) = events_forwarded (metrics r)
   \<and> connection (relay_loop n now lat r) = connection r"
  by (induction n arbitrary: r) (simp_all add: relay_step_forwards_nothing)

lemma sample_loaded_relay_drained:
  "events_forwarded (metrics (relay_loop 4 sample_time 1 sample_loaded_relay)) = 0
   \<and> events_failed (metrics (relay_loop 4 sample_time 1 sample_loaded_relay)) = 3
   \<and> event_queue (relay_loop 4 sample_time 1 sample_loaded_relay) = []
   \<and> batch_buffer (relay_loop 4 sample_time 1 sample_loaded_relay) = []
   \<and> connection (relay_loop 4 sample_time 1 sample_loaded_relay) = Some sample_handler"
  by (simp add: sample_loaded_relay_def sample_relay_def start_def InputRelay_init_def
      RelayConfig_default_def RelayMetrics_init_def queue_event_def queue_full_def
      relay_step_def flush_batch_fails add_to_batch_def eval_nat_numeral)

section \<open>Properties of the connection\<close>

lemma recv_loop_enough:
  "need \<le> length acc + length (rx s) \<Longrightarrow>
   \<exists>s'. recv_loop need acc s = (Inr (Some (acc @ take (need - length acc) (rx s))), s')
        \<and> rx s' = drop (need - length acc) (rx s) \<and> sent s' = sent s
        \<and> writable s' = writable s \<and> peer_closed s' = peer_closed s"
proof (induction need acc s rule: recv_loop.induct)
  case (1 need acc s)
  show ?case
  proof (cases "need \<le> length acc")
    case True
    then show ?thesis by (subst recv_loop.simps) simp
  next
    case False
    define n where "n = need - length acc"
    define k where "k = (case rx_chunks s of [] \<Rightarrow> n | c # _ \<Rightarrow> min n (max 1 c))"
    define s1 where "s1 = s\<lparr>rx := drop k (rx s), rx_chunks := tl (rx_chunks s)\<rparr>"
    from False "1.prems" have n: "0 < n" "n \<le> length (rx s)" by (simp_all add: n_def)
    then have k: "1 \<le> k" "k \<le> n" by (auto simp: k_def split: list.splits)
    from n have rxne: "rx s \<noteq> []" by auto
    have rv: "recv (need - length acc) s = Inr (take k (rx s), s1)"
      using rxne unfolding k_def s1_def n_def by (simp add: recv_def Let_def)
    have cne: "take k (rx s) \<noteq> []" using k rxne by (cases "rx s") auto
    have len: "length (take k (rx s)) = k" using k n by simp
    have pre: "need \<le> length (acc @ take k (rx s)) + length (rx s1)"
      using "1.prems" k n by (simp add: s1_def)
    from "1.IH" [OF False rv refl cne pre]
    obtain s' where s': "recv_loop need (acc @ take k (rx s)) s1
          = (Inr (Some ((acc @ take k (rx s)) @ take (need - length (acc @ take k (rx s))) (rx s1))), s')"
        "rx s' = drop (need - length (acc @ take k (rx s))) (rx s1)" "sent s' = sent s1"
        "writable s' = writable s1" "peer_closed s' = peer_closed s1"
      by blast
    have eq1: "take k (rx s) @ take (need - length (acc @ take k (rx s))) (rx s1) = take n (rx s)"
    proof -
      have "need - length (acc @ take k (rx s)) = n - k" using len by (simp add: n_def)
      moreover have "take k (rx s) @ take (n - k) (drop k (rx s)) = take (k + (n - k)) (rx s)"
        by (simp add: take_add)
      ultimately show ?thesis using k by (simp add: s1_def)
    qed
    have eq2: "drop (need - length (acc @ take k (rx s))) (rx s1) = drop n (rx s)"
    proof -
      have "need - length (acc @ take k (rx s)) = n - k" using len by (simp add: n_def)
      then show ?thesis using k by (simp add: s1_def)
    qed
    have "recv_loop need acc s = recv_loop need (acc @ take k (rx s)) s1"
      using False rv cne by (subst recv_loop.simps) simp
    with s' eq1 eq2 show ?thesis
      by (simp add: n_def s1_def)
  qed
qed


lemma oversize_first_receive:
  "receive_message oversize_handler =
     (None, sample_handler\<lparr>socket := Some (sample_socket\<lparr>
        rx := [0x00, 0x00, 0x00, 0x02, 0x7B, 0x7D], peer_closed := True\<rparr>)\<rparr>)"
  by (simp add: oversize_handler_def receive_message_def sample_handler_def sample_socket_def
      recv_loop.simps recv_def from_bytes_def MAX_MESSAGE_LENGTH_def)

text \<open>
  C3, as stated, fails. After the oversized length the result is \<open>None\<close>, but the
  connection is not abandoned: the handler still holds its socket, and the next
  \<open>receive_message\<close> reads on and returns the frame that follows.
\<close>

theorem oversize_connection_not_abandoned:
  "fst (receive_message oversize_handler) = None
   \<and> socket (snd (receive_message oversize_handler)) \<noteq> None
   \<and> fst (receive_message (snd (receive_message oversize_handler))) = Some (JObj [])"
  unfolding oversize_first_receive
  by (simp add: receive_message_def sample_handler_def sample_socket_def recv_loop.simps
      recv_def from_bytes_def MAX_MESSAGE_LENGTH_def json_loads_def skip_ws_def is_ws_def
      char_of_eq_iff)

text \<open>
  C3, amended. When the four length bytes are there and their value exceeds 1 MiB,
  \<open>receive_message\<close> returns \<open>None\<close> and no payload, having taken exactly the four
  length bytes from the stream and nothing after them. It does not close the connection:
  the handler keeps its socket, positioned after the length, and nothing else of the
  handler changes.
\<close>

theorem oversize_receive_fails_without_reading_on:
  assumes "socket h = Some s" and "4 \<le> length (rx s)"
    and "MAX_MESSAGE_LENGTH < from_bytes (take 4 (rx s))"
  shows "fst (receive_message h) = None
    \<and> (\<exists>s'. snd (receive_message h) = h\<lparr>socket := Some s'\<rparr>
            \<and> rx s' = drop 4 (rx s) \<and> sent s' = sent s)"
proof -
  from assms(2) recv_loop_enough [of 4 "[]" s]
  obtain s' where s': "recv_loop 4 [] s = (Inr (Some (take 4 (rx s))), s')"
      "rx s' = drop 4 (rx s)" "sent s' = sent s"
    by auto
  from assms(1,3) s' have "receive_message h = (None, h\<lparr>socket := Some s'\<rparr>)"
    by (simp add: receive_message_def)
  with s' show ?thesis by auto
qed

theorem oversize_receive_fails_without_reading_on_witness:
  "socket oversize_handler \<noteq> None
   \<and> MAX_MESSAGE_LENGTH < from_bytes [0x00, 0x10, 0x00, 0x01]
   \<and> fst (receive_message oversize_handler) = None
   \<and> (\<exists>s'. snd (receive_message oversize_handler) = oversize_handler\<lparr>socket := Some s'\<rparr>
           \<and> rx s' = [0x00, 0x00, 0x00, 0x02, 0x7B, 0x7D] \<and> sent s' = [])"
proof -
  let ?s = "sample_socket\<lparr>rx := [0x00, 0x10, 0x00, 0x01, 0x00, 0x00, 0x00, 0x02, 0x7B, 0x7D],
                          peer_closed := True\<rparr>"
  have a: "socket oversize_handler = Some ?s" by (simp add: oversize_handler_def)
  have b: "4 \<le> length (rx ?s)" by simp
  have c: "MAX_MESSAGE_LENGTH < from_bytes (take 4 (rx ?s))"
    by (simp add: from_bytes_def MAX_MESSAGE_LENGTH_def)
  from oversize_receive_fails_without_reading_on [OF a b c] a c show ?thesis
    by (simp add: sample_socket_def)
qed

section \<open>Properties of discovery\<close>

lemma list_all_dict_set:
  "list_all P d \<Longrightarrow> P (k, v) \<Longrightarrow> list_all P (dict_set k v d)"
  by (induction d) auto

lemma Device_post_init_same: "Device_post_init d = Inr d' \<Longrightarrow> d' = d"
  by (auto simp: Device_post_init_def split: if_splits)

lemma repo_read_id: "repo_read i database = Inr (Some d) \<Longrightarrow> dev_id d = i"
  by (auto simp: repo_read_def find_Some_iff dest!: Device_post_init_same
      split: option.splits sum.splits)

lemma notify_no_self:
  "no_self svc \<Longrightarrow> dev_id d \<noteq> dev_id (local_device svc) \<Longrightarrow> no_self (notify ev d svc)"
  by (auto simp: no_self_def notify_def list_all_iff)

lemma notify_local [simp]: "local_device (notify ev d svc) = local_device svc"
  by (simp add: notify_def)

lemma store_device_no_self:
  assumes "store_device now i ip d svc = Inr (d', svc')" and "no_self svc"
    and "dev_id d = i" and "i \<noteq> dev_id (local_device svc)"
  shows "no_self svc' \<and> dev_id d' = i \<and> local_device svc' = local_device svc"
  using assms
  by (auto simp: store_device_def no_self_def Let_def dest!: repo_read_id
      intro!: list_all_dict_set split: sum.splits option.splits)

lemma on_device_added_no_self:
  "no_self svc \<Longrightarrow>
     no_self (on_device_added now info sname svc)
     \<and> local_device (on_device_added now info sname svc) = local_device svc"
  by (auto simp: on_device_added_def Let_def split: option.splits sum.splits
      dest!: Device_post_init_same dest: store_device_no_self intro!: notify_no_self)

lemma on_device_removed_no_self:
  "no_self svc \<Longrightarrow>
     no_self (on_device_removed sname svc)
     \<and> local_device (on_device_removed sname svc) = local_device svc"
proof -
  assume ns: "no_self svc"
  show ?thesis
  proof (cases "find (\<lambda>(device_id, device). name device = device_name_of sname)
                  (discovered_devices svc)")
    case None
    with ns show ?thesis by (simp add: on_device_removed_def)
  next
    case (Some kd)
    obtain k d where kd: "kd = (k, d)" by (cases kd)
    from Some kd have "(k, d) \<in> set (discovered_devices svc)"
      by (metis find_Some_iff nth_mem)
    with ns have d: "dev_id d \<noteq> dev_id (local_device svc)"
      by (auto simp: no_self_def list_all_iff)
    let ?svc1 = "svc\<lparr>discovered_devices := filter (\<lambda>(k', d'). k' \<noteq> k) (discovered_devices svc)\<rparr>"
    from ns have ns1: "no_self ?svc1" by (auto simp: no_self_def list_all_iff)
    have ns2: "no_self (?svc1\<lparr>db := db'\<rparr>)" for db'
      using ns1 by (simp add: no_self_def)
    show ?thesis
      using Some kd d ns1 ns2
      by (auto simp: on_device_removed_def Let_def split: sum.splits intro!: notify_no_self)
  qed
qed

lemma sweep_devices_no_self:
  "no_self svc \<Longrightarrow>
   list_all (\<lambda>(k, d). k \<noteq> dev_id (local_device svc) \<and> dev_id d \<noteq> dev_id (local_device svc)) items \<Longrightarrow>
     no_self (snd (sweep_devices now items svc))
     \<and> local_device (snd (sweep_devices now items svc)) = local_device svc"
proof (induction items arbitrary: svc)
  case Nil
  then show ?case by simp
next
  case (Cons item items)
  obtain k d where item: "item = (k, d)" by (cases item)
  let ?d' = "d\<lparr>is_registered := False\<rparr>"
  let ?svc1 = "svc\<lparr>discovered_devices := dict_set k ?d' (discovered_devices svc)\<rparr>"
  from Cons.prems item have kd: "k \<noteq> dev_id (local_device svc)" "dev_id d \<noteq> dev_id (local_device svc)"
    and rest: "list_all (\<lambda>(k, d). k \<noteq> dev_id (local_device svc) \<and> dev_id d \<noteq> dev_id (local_device svc)) items"
    by auto
  from Cons.prems(1) kd have ns1: "no_self ?svc1"
    by (auto simp: no_self_def intro!: list_all_dict_set)
  have step: "no_self (notify ''device_offline'' ?d' (?svc1\<lparr>db := db'\<rparr>))
      \<and> local_device (notify ''device_offline'' ?d' (?svc1\<lparr>db := db'\<rparr>)) = local_device svc" for db'
  proof -
    from ns1 have "no_self (?svc1\<lparr>db := db'\<rparr>)" by (simp add: no_self_def)
    from notify_no_self [OF this, of ?d' "''device_offline''"] kd show ?thesis by simp
  qed
  have ih1: "no_self (snd (sweep_devices now items (notify ''device_offline'' ?d' (?svc1\<lparr>db := db'\<rparr>))))
      \<and> local_device (snd (sweep_devices now items (notify ''device_offline'' ?d' (?svc1\<lparr>db := db'\<rparr>))))
          = local_device svc" for db'
    using Cons.IH [of "notify ''device_offline'' ?d' (?svc1\<lparr>db := db'\<rparr>)"] step [of db'] rest
    by simp
  have ih2: "no_self (snd (sweep_devices now items svc))
      \<and> local_device (snd (sweep_devices now items svc)) = local_device svc"
    using Cons.IH [of svc] Cons.prems(1) rest by simp
  show ?case
    using item Cons.prems(1) ns1 ih1 ih2
    by (auto simp: Let_def split: sum.splits)
qed

lemma check_offline_no_self:
  "no_self svc \<Longrightarrow>
     no_self (snd (check_offline now svc))
     \<and> local_device (snd (check_offline now svc)) = local_device svc"
  unfolding check_offline_def
  by (rule sweep_devices_no_self) (simp_all add: no_self_def)

lemma discovery_step_no_self:
  assumes ns: "no_self svc"
  shows "no_self (discovery_step e svc) \<and> local_device (discovery_step e svc) = local_device svc"
proof (cases e)
  case (AddListener callback)
  with ns show ?thesis by (simp add: add_listener_def no_self_def)
next
  case (SetRunning b)
  with ns show ?thesis by (simp add: no_self_def)
next
  case (ServiceAdded now info sname)
  with on_device_added_no_self [OF ns, of now info sname] show ?thesis by simp
next
  case (ServiceRemoved sname)
  with on_device_removed_no_self [OF ns, of sname] show ?thesis by simp
next
  case (ServiceUpdated now info sname)
  from on_device_removed_no_self [OF ns, of sname]
  have a: "no_self (on_device_removed sname svc)"
    and b: "local_device (on_device_removed sname svc) = local_device svc" by simp_all
  from on_device_added_no_self [OF a, of now info sname] b ServiceUpdated
  show ?thesis by (simp add: on_device_updated_def)
next
  case (Sweep now)
  with check_offline_no_self [OF ns, of now] ns show ?thesis by simp
qed

lemma discovery_run_no_self:
  "no_self svc \<Longrightarrow>
     no_self (discovery_run events svc) \<and> local_device (discovery_run events svc) = local_device svc"
  unfolding discovery_run_def
proof (induction events arbitrary: svc)
  case Nil
  then show ?case by simp
next
  case (Cons e events)
  from discovery_step_no_self [OF Cons.prems, of e]
  have a: "no_self (discovery_step e svc)" and b: "local_device (discovery_step e svc) = local_device svc"
    by simp_all
  from Cons.IH [OF a] b show ?case by simp
qed

text \<open>
  C8. In every state a discovery service reaches from its creation, through listener
  registrations, starts and stops, mDNS additions, removals and updates, and sweeps,
  the dictionary of discovered peers has no key and no device with the id of the local
  device, and no call to a listener has carried a device with that id. The filter of
  \<open>_on_device_added\<close> compares the advertised \<open>device_id\<close> with the local id and
  looks at no address (\<open>self_filter_ignores_address\<close>).
\<close>

theorem never_reports_own_identity:
  "no_self (discovery_run events (DiscoveryService_init local database))"
  by (rule discovery_run_no_self [THEN conjunct1]) (simp add: no_self_def DiscoveryService_init_def)

lemma self_filter_ignores_address:
  "prop_str ''device_id'' [] info = Inr (dev_id (local_device svc)) \<Longrightarrow>
     on_device_added now (Some info) sname svc = svc"
  by (simp add: on_device_added_def Let_def split: sum.splits)












section \<open>Properties of the event dictionary\<close>

lemma digit_char_cases:
  assumes "d < 10"
  shows "digit_char d \<in> set ''0123456789''"
proof -
  from assms
  have "d = 0 \<or> d = 1 \<or> d = 2 \<or> d = 3 \<or> d = 4 \<or> d = 5 \<or> d = 6 \<or> d = 7 \<or> d = 8 \<or> d = 9"
    by arith
  then show ?thesis
    by (elim disjE) (simp_all add: digit_char_def char_of_eq_iff)
qed

lemma is_digit_digit_char: "d < 10 \<Longrightarrow> is_digit (digit_char d)"
  unfolding is_digit_def by (rule digit_char_cases)

lemma digit_val_digit_char: "d < 10 \<Longrightarrow> digit_val (digit_char d) = d"
  by (simp add: digit_val_def digit_char_def)

lemma length_pad [simp]: "length (pad k n) = k"
  by (induction k arbitrary: n) simp_all

lemma pad_eq_Nil [simp]: "pad k n = [] \<longleftrightarrow> k = 0"
  by (metis length_pad length_0_conv)

lemma pad_digits: "list_all is_digit (pad k n)"
  by (induction k arbitrary: n) (simp_all add: is_digit_digit_char)

lemma digits_value_snoc: "digits_value (xs @ [c]) = 10 * digits_value xs + digit_val c"
  by (simp add: digits_value_def)

lemma digits_value_pad: "digits_value (pad k n) = n mod 10 ^ k"
proof (induction k arbitrary: n)
  case 0
  then show ?case by (simp add: digits_value_def)
next
  case (Suc k)
  have "n mod (10 * 10 ^ k) = 10 * (n div 10 mod 10 ^ k) + n mod 10"
    by (rule mod_mult2_eq)
  with Suc show ?case
    by (simp add: digits_value_snoc digit_val_digit_char)
qed

lemma read_digits_pad: "0 < k \<Longrightarrow> n < 10 ^ k \<Longrightarrow> read_digits (pad k n) = Some n"
  by (auto simp: read_digits_def pad_digits digits_value_pad)

lemma is_digit_not_sign: "is_digit c \<Longrightarrow> \<not> is_sign c"
  by (auto simp: is_digit_def is_sign_def)

lemma pad_no_sign: "list_all (\<lambda>c. \<not> is_sign c) (pad k n)"
  using pad_digits [of k n] by (auto simp: list_all_iff is_digit_not_sign)

lemma parse_date_fmt:
  "y < 10000 \<Longrightarrow> m < 100 \<Longrightarrow> d < 100 \<Longrightarrow>
     parse_date (pad 4 y @ ''-'' @ pad 2 m @ ''-'' @ pad 2 d) = Some (y, m, d)"
  by (simp add: parse_date_def nth_append read_digits_pad)

lemma parse_hms_fmt8:
  "h < 100 \<Longrightarrow> mi < 100 \<Longrightarrow> s < 100 \<Longrightarrow>
     parse_hms (pad 2 h @ '':'' @ pad 2 mi @ '':'' @ pad 2 s) = Some (h, mi, s, 0)"
  by (simp add: parse_hms_def nth_append read_digits_pad Let_def)

lemma parse_hms_fmt15:
  "h < 100 \<Longrightarrow> mi < 100 \<Longrightarrow> s < 100 \<Longrightarrow> us < 1000000 \<Longrightarrow>
     parse_hms (pad 2 h @ '':'' @ pad 2 mi @ '':'' @ pad 2 s @ ''.'' @ pad 6 us) = Some (h, mi, s, us)"
  by (simp add: parse_hms_def nth_append read_digits_pad Let_def)

lemma parse_offset_fmt:
  "- 1440 < off \<Longrightarrow> off < 1440 \<Longrightarrow> parse_offset (format_offset off) = Some off"
proof -
  assume a: "- 1440 < off" "off < 1440"
  define n where "n = nat \<bar>off\<bar>"
  have n: "n < 1440" using a by (simp add: n_def)
  then have d: "n div 60 < 100" "n mod 60 < 100" "n mod 60 < 60" by simp_all
  have "n div 60 * 60 + n mod 60 = n" by simp
  then have v: "int (n div 60 * 60 + n mod 60) = \<bar>off\<bar>" by (simp add: n_def)
  show ?thesis
    using d v unfolding format_offset_def n_def [symmetric] Let_def
    by (simp add: parse_offset_def nth_append read_digits_pad)
qed

lemma days_in_month_bound: "days_in_month y m < 100"
  by (simp add: days_in_month_def)

lemma format_offset_shape:
  "\<exists>c r. format_offset off = c # r \<and> is_sign c"
  by (simp add: format_offset_def Let_def is_sign_def)

lemma fromisoformat_isoformat:
  assumes v: "valid_datetime t"
  shows "fromisoformat (isoformat t) = Inr t"
proof -
  define D where "D = pad 4 (year t) @ ''-'' @ pad 2 (month t) @ ''-'' @ pad 2 (day t)"
  define T where "T = pad 2 (hour t) @ '':'' @ pad 2 (minute t) @ '':'' @ pad 2 (second t) @
     (if microsecond t = 0 then [] else ''.'' @ pad 6 (microsecond t))"
  define Z where "Z = (case tzoffset t of None \<Rightarrow> [] | Some off \<Rightarrow> format_offset off)"
  have iso: "isoformat t = D @ ''T'' @ T @ Z"
    by (simp add: isoformat_def D_def T_def Z_def)
  have lD: "length D = 10" by (simp add: D_def)
  from v have b: "year t < 10000" "month t < 100" "day t < 100" "hour t < 100" "minute t < 100"
      "second t < 100" "microsecond t < 1000000"
    using days_in_month_bound [of "year t" "month t"]
    by (auto simp: valid_datetime_def)
  have pd: "parse_date (take 10 (isoformat t)) = Some (year t, month t, day t)"
    using b parse_date_fmt [of "year t" "month t" "day t"] by (simp add: iso lD) (simp add: D_def)
  have ne10: "length (isoformat t) \<noteq> 10" by (simp add: iso lD)
  have dr: "drop 11 (isoformat t) = T @ Z" by (simp add: iso lD)
  have Tns: "list_all (\<lambda>c. \<not> is_sign c) T"
    using pad_no_sign by (simp add: T_def is_sign_def)
  have Zs: "Z = [] \<or> (\<exists>c r. Z = c # r \<and> is_sign c)"
    using format_offset_shape by (auto simp: Z_def split: option.splits)
  have tw: "takeWhile (\<lambda>c. \<not> is_sign c) (T @ Z) = T"
    using Tns Zs by (auto simp: list_all_iff takeWhile_append2)
  have dw: "dropWhile (\<lambda>c. \<not> is_sign c) (T @ Z) = Z"
    using Tns Zs by (auto simp: list_all_iff dropWhile_append2)
  have ph: "parse_hms T = Some (hour t, minute t, second t, microsecond t)"
    using b parse_hms_fmt8 [of "hour t" "minute t" "second t"]
      parse_hms_fmt15 [of "hour t" "minute t" "second t" "microsecond t"]
    by (auto simp: T_def)
  have pz: "(if Z = [] then Some None
             else (case parse_offset Z of None \<Rightarrow> None | Some off \<Rightarrow> Some (Some off)))
            = Some (tzoffset t)"
  proof (cases "tzoffset t")
    case None
    then show ?thesis by (simp add: Z_def)
  next
    case (Some off)
    with v have "- 1440 < off" "off < 1440" by (simp_all add: valid_datetime_def)
    then have "parse_offset (format_offset off) = Some off" by (rule parse_offset_fmt)
    moreover have "format_offset off \<noteq> []" using format_offset_shape [of off] by auto
    ultimately show ?thesis using Some by (simp add: Z_def)
  qed
  have rec: "\<lparr>year = year t, month = month t, day = day t, hour = hour t, minute = minute t,
              second = second t, microsecond = microsecond t, tzoffset = tzoffset t\<rparr> = t"
    by simp
  show ?thesis
    unfolding fromisoformat_def pd dr tw dw Let_def
    using ne10 ph pz v by (simp add: rec)
qed

lemma InputEventType_of_value: "InputEventType_of (InputEventType_value k) = Some k"
  by (cases k) (simp_all add: InputEventType_of_def)

text \<open>
  C6. For an event of any kind that the constructor has accepted, with a timestamp the
  \<open>datetime\<close> class admits, \<open>from_dict\<close> applied to \<open>to_dict\<close> of the event returns
  the event itself: id, kind, both device ids, payload, timestamp and encryption flag
  are all the original ones.
\<close>

theorem to_dict_from_dict_roundtrip:
  assumes "InputEvent_post_init e = Inr e" and "valid_datetime (timestamp e)"
  shows "from_dict fresh_id (to_dict e) = Inr e"
proof -
  have rec: "\<lparr>event_id = event_id e, event_type = event_type e,
              source_device_id = source_device_id e, target_device_id = target_device_id e,
              payload = payload e, timestamp = timestamp e, is_encrypted = is_encrypted e\<rparr> = e"
    by simp
  show ?thesis
    using assms(1)
    by (simp add: from_dict_def to_dict_def dict_get_def get_str_def InputEventType_of_value
        fromisoformat_isoformat [OF assms(2)] rec)
qed

lemma sample_time_valid: "valid_datetime sample_time"
  by (simp add: valid_datetime_def sample_time_def days_in_month_def)

lemma sample_key_event_constructed:
  "InputEvent_post_init (sample_key_event key) = Inr (sample_key_event key)"
  by (simp add: InputEvent_post_init_def sample_key_event_def validate_uuid_def re_dollar_def
      match_classes_def uuid_pattern_def is_hex_digit_def is_dash_def validate_payload_def
      dict_contains_def eval_nat_numeral)

theorem to_dict_from_dict_roundtrip_witness:
  "InputEvent_post_init (sample_key_event ''A'') = Inr (sample_key_event ''A'')
   \<and> valid_datetime (timestamp (sample_key_event ''A''))
   \<and> from_dict ''00000000-0000-4000-8000-000000000000'' (to_dict (sample_key_event ''A''))
       = Inr (sample_key_event ''A'')"
proof -
  have v: "valid_datetime (timestamp (sample_key_event ''A''))"
    using sample_time_valid by (simp add: sample_key_event_def)
  from to_dict_from_dict_roundtrip [OF sample_key_event_constructed v]
    sample_key_event_constructed v
  show ?thesis by simp
qed

end
